theory Spec2Isabelle
  imports Main
begin

section \<open>Python values\<close>

text \<open>
  A Python \<open>str\<close> is a sequence of Unicode code points, so it is modelled as a list of
  code points (\<open>nat\<close>); \<open>lit\<close> turns an ASCII literal into such a list. The non-ASCII
  literals of the source are written out code point by code point.
\<close>

type_synonym pystr = "nat list"

definition lit :: "string \<Rightarrow> pystr" where
  "lit s = map of_char s"

text \<open>
  A Python \<open>float\<close> is an IEEE double. Its arithmetic is not modelled: the type of
  floats is the type parameter \<open>'f\<close>, and the three operations the parser applies to a
  float are parameters (record \<open>builtins\<close> below).
\<close>

text \<open>
  What \<open>resp.json()\<close> returns: \<open>None\<close>, \<open>bool\<close>, \<open>int\<close> (unbounded), \<open>float\<close>,
  \<open>str\<close>, \<open>list\<close>, \<open>dict\<close> with \<open>str\<close> keys. A dict is an association list read with
  \<open>map_of\<close>.
\<close>

datatype 'f json =
    JNull
  | JBool bool
  | JInt int
  | JFloat 'f
  | JStr pystr
  | JList "'f json list"
  | JDict "(pystr \<times> 'f json) list"

text \<open>
  The builtins of Python that are taken as parameters: truth value of a float, equality
  of a float with an int, floor division of a float by an int, and \<open>format(v, '')\<close> for the
  values that are neither \<open>str\<close>, \<open>int\<close>, \<open>bool\<close> nor \<open>None\<close> (the \<open>repr\<close> of a float, a list or
  a dict).
\<close>

record 'f builtins =
  float_truthy :: "'f \<Rightarrow> bool"
  float_eq_int :: "'f \<Rightarrow> int \<Rightarrow> bool"
  float_floordiv :: "'f \<Rightarrow> int \<Rightarrow> 'f"
  format_other :: "'f json \<Rightarrow> pystr"

text \<open>
  Exceptions. \<open>ClientError\<close> and \<open>ParseException\<close> are the two the parser raises itself,
  with their message; the others are raised by the Python operations on a value of the
  wrong shape. \<open>RequestFailed\<close> stands for any exception out of \<open>session.get\<close>,
  \<open>BodyUnreadable\<close> for any exception out of \<open>resp.json\<close>.
\<close>

datatype error =
    ClientError pystr
  | ParseException pystr
  | AttributeError
  | TypeError
  | IndexError
  | KeyError
  | RequestFailed
  | BodyUnreadable

definition ebind :: "error + 'a \<Rightarrow> ('a \<Rightarrow> error + 'b) \<Rightarrow> error + 'b" where
  "ebind m f = (case m of Inl e \<Rightarrow> Inl e | Inr x \<Rightarrow> f x)"

text \<open>\<open>bool(v)\<close>, as \<open>if v\<close> and \<open>if not v\<close> test it.\<close>

fun truthy :: "'f builtins \<Rightarrow> 'f json \<Rightarrow> bool" where
  "truthy B JNull = False"
| "truthy B (JBool b) = b"
| "truthy B (JInt n) = (n \<noteq> 0)"
| "truthy B (JFloat x) = float_truthy B x"
| "truthy B (JStr s) = (s \<noteq> [])"
| "truthy B (JList xs) = (xs \<noteq> [])"
| "truthy B (JDict kvs) = (kvs \<noteq> [])"

text \<open>\<open>obj.get(key, default)\<close>: only a dict has the method.\<close>

definition dict_get :: "(pystr \<times> 'f json) list \<Rightarrow> pystr \<Rightarrow> 'f json \<Rightarrow> 'f json" where
  "dict_get kvs k d = (case map_of kvs k of None \<Rightarrow> d | Some v \<Rightarrow> v)"

fun py_get :: "'f json \<Rightarrow> pystr \<Rightarrow> 'f json \<Rightarrow> error + 'f json" where
  "py_get (JDict kvs) k d = Inr (dict_get kvs k d)"
| "py_get _ k d = Inl AttributeError"

text \<open>
  \<open>obj[0]\<close>: the first element of a list, the first character of a str, \<open>KeyError\<close> on a
  dict (its keys are strings), \<open>TypeError\<close> on the values that cannot be subscripted.
\<close>

fun py_first :: "'f json \<Rightarrow> error + 'f json" where
  "py_first (JList []) = Inl IndexError"
| "py_first (JList (x # xs)) = Inr x"
| "py_first (JStr []) = Inl IndexError"
| "py_first (JStr (c # cs)) = Inr (JStr [c])"
| "py_first (JDict kvs) = Inl KeyError"
| "py_first _ = Inl TypeError"

text \<open>\<open>v + s\<close> and \<open>s + v\<close> for a str \<open>s\<close>: \<open>v\<close> must be a str.\<close>

fun py_add_str :: "'f json \<Rightarrow> pystr \<Rightarrow> error + pystr" where
  "py_add_str (JStr v) s = Inr (v @ s)"
| "py_add_str _ s = Inl TypeError"

fun py_str_add :: "pystr \<Rightarrow> 'f json \<Rightarrow> error + pystr" where
  "py_str_add s (JStr v) = Inr (s @ v)"
| "py_str_add s _ = Inl TypeError"

text \<open>\<open>v // n\<close> for an int \<open>n \<noteq> 0\<close>; a bool is an int.\<close>

fun py_floordiv :: "'f builtins \<Rightarrow> 'f json \<Rightarrow> int \<Rightarrow> error + 'f json" where
  "py_floordiv B (JInt i) n = Inr (JInt (i div n))"
| "py_floordiv B (JBool b) n = Inr (JInt ((if b then 1 else 0) div n))"
| "py_floordiv B (JFloat x) n = Inr (JFloat (float_floordiv B x n))"
| "py_floordiv B _ n = Inl TypeError"

text \<open>\<open>v == n\<close> for an int \<open>n\<close>.\<close>

fun py_eq_int :: "'f builtins \<Rightarrow> 'f json \<Rightarrow> int \<Rightarrow> bool" where
  "py_eq_int B (JInt i) n = (i = n)"
| "py_eq_int B (JBool b) n = ((if b then 1 else 0) = n)"
| "py_eq_int B (JFloat x) n = float_eq_int B x n"
| "py_eq_int B _ n = False"

text \<open>\<open>for x in v\<close>: the elements of a list, the characters of a str, the keys of a dict.\<close>

fun py_iter :: "'f json \<Rightarrow> error + 'f json list" where
  "py_iter (JList xs) = Inr xs"
| "py_iter (JStr s) = Inr (map (\<lambda>c. JStr [c]) s)"
| "py_iter (JDict kvs) = Inr (map (\<lambda>kv. JStr (fst kv)) kvs)"
| "py_iter _ = Inl TypeError"

text \<open>\<open>str(n)\<close> for an int: decimal digits, with a minus sign for a negative number.\<close>

fun dec_digits :: "nat \<Rightarrow> pystr" where
  "dec_digits n = (if n < 10 then [48 + n] else dec_digits (n div 10) @ [48 + n mod 10])"

declare dec_digits.simps [simp del]

definition py_str_int :: "int \<Rightarrow> pystr" where
  "py_str_int i = (if i < 0 then 45 # dec_digits (nat (- i)) else dec_digits (nat i))"

text \<open>\<open>format(v, '')\<close>, what an f-string does with \<open>{v}\<close>.\<close>

fun py_format :: "'f builtins \<Rightarrow> 'f json \<Rightarrow> pystr" where
  "py_format B (JStr s) = s"
| "py_format B (JInt i) = py_str_int i"
| "py_format B (JBool b) = (if b then lit ''True'' else lit ''False'')"
| "py_format B JNull = lit ''None''"
| "py_format B v = format_other B v"

text \<open>
  \<open>sep.join(f(x) for x in xs)\<close>: the generator is run to its end first (the first
  exception of \<open>f\<close> wins), then every item must be a str.
\<close>

fun collect :: "('a \<Rightarrow> error + 'b) \<Rightarrow> 'a list \<Rightarrow> error + 'b list" where
  "collect f [] = Inr []"
| "collect f (x # xs) = ebind (f x) (\<lambda>y. ebind (collect f xs) (\<lambda>ys. Inr (y # ys)))"

fun as_str :: "'f json \<Rightarrow> error + pystr" where
  "as_str (JStr s) = Inr s"
| "as_str _ = Inl TypeError"

fun join :: "pystr \<Rightarrow> pystr list \<Rightarrow> pystr" where
  "join sep [] = []"
| "join sep [s] = s"
| "join sep (s # t # ts) = s @ sep @ join sep (t # ts)"

definition py_join :: "pystr \<Rightarrow> 'f json list \<Rightarrow> error + pystr" where
  "py_join sep items = ebind (collect as_str items) (\<lambda>ss. Inr (join sep ss))"

section \<open>The parsed result\<close>

text \<open>
  Modelled from the spec: the factory methods \<open>create_author\<close>, \<open>create_audio_content\<close>,
  \<open>create_image_contents\<close> and \<open>result\<close> of the base parser class are not part of this
  file. The spec says the module "only supplies arguments" to them, so each one is the
  constructor of the value it names: an author holds a name and an avatar, an audio item
  a URL and an optional duration, \<open>create_image_contents\<close> makes one image item per URL of
  its list, and \<open>result\<close> holds title, text, author, contents, timestamp and URL, author
  and timestamp being absent when not passed.
\<close>

record 'f author =
  au_name :: pystr
  au_avatar :: "'f json"

datatype 'f content =
    ImageContent "'f json"
  | AudioContent "'f json" "'f json option"

record 'f parse_result =
  r_title :: pystr
  r_text :: "pystr option"
  r_author :: "'f author option"
  r_contents :: "'f content list"
  r_timestamp :: "int option"
  r_url :: pystr

text \<open>Modelled from the spec: \<open>create_author(name, avatar)\<close> of the base class, absent here;
  it builds the author of the two arguments.\<close>

definition create_author :: "pystr \<Rightarrow> 'f json \<Rightarrow> 'f author" where
  "create_author n a = \<lparr>au_name = n, au_avatar = a\<rparr>"

text \<open>Modelled from the spec: \<open>create_audio_content(url, duration=...)\<close> of the base class,
  absent here; it builds the audio item of the URL, the duration being \<open>None\<close> when not
  passed.\<close>

definition create_audio_content :: "'f json \<Rightarrow> 'f json option \<Rightarrow> 'f content" where
  "create_audio_content u duration = AudioContent u duration"

text \<open>Modelled from the spec: \<open>create_image_contents(urls)\<close> of the base class, absent
  here; it builds one image item per URL, in order.\<close>

definition create_image_contents :: "'f json list \<Rightarrow> 'f content list" where
  "create_image_contents urls = map ImageContent urls"

text \<open>Modelled from the spec: \<open>result(title, text, author, contents, timestamp, url)\<close> of
  the base class, absent here; it builds the parsed result of its arguments.\<close>

definition result ::
  "pystr \<Rightarrow> pystr option \<Rightarrow> 'f author option \<Rightarrow> 'f content list \<Rightarrow> int option \<Rightarrow> pystr \<Rightarrow> 'f parse_result" where
  "result t x a cs ts u =
     \<lparr>r_title = t, r_text = x, r_author = a, r_contents = cs, r_timestamp = ts, r_url = u\<rparr>"

section \<open>The network and the match\<close>

text \<open>
  The handlers are run against a network: what \<open>session.get\<close> on a URL gives, either no
  response at all or a status and a body that \<open>resp.json\<close> can decode or not. A handler
  returns its outcome together with the URLs it has requested, in order.
\<close>

datatype 'f reply = NoReply | Reply int "'f json option"

type_synonym 'f network = "pystr \<Rightarrow> 'f reply"

text \<open>The regex match a handler receives: the matched text and the group \<open>song_id\<close>.\<close>

record re_match =
  group0 :: pystr
  group_song_id :: pystr

section \<open>Direct links\<close>

text \<open>The titles and the text (lines 126, 127, 142): U+7F51 U+6613 U+4E91 U+97F3 U+4E50,
  then for the private link U+FF08 U+79C1 U+4EBA U+76F4 U+94FE U+FF09; the text is
  U+76F4 U+94FE U+97F3 U+9891.\<close>

definition direct_title :: pystr where
  "direct_title = [0x7F51, 0x6613, 0x4E91, 0x97F3, 0x4E50]"

definition private_title :: pystr where
  "private_title =
     [0x7F51, 0x6613, 0x4E91, 0x97F3, 0x4E50, 0xFF08, 0x79C1, 0x4EBA, 0x76F4, 0x94FE, 0xFF09]"

definition direct_text :: pystr where
  "direct_text = [0x76F4, 0x94FE, 0x97F3, 0x9891]"

definition parse_direct_mp3 :: "'f network \<Rightarrow> re_match \<Rightarrow> (error + 'f parse_result) \<times> pystr list" where
  "parse_direct_mp3 net searched =
     (let url = group0 searched;
          audio = create_audio_content (JStr url) None
      in (Inr (result direct_title (Some direct_text) None [audio] None url), []))"

definition parse_private_outer :: "'f network \<Rightarrow> re_match \<Rightarrow> (error + 'f parse_result) \<times> pystr list" where
  "parse_private_outer net searched =
     (let private_url = group0 searched;
          audio = create_audio_content (JStr private_url) None
      in (Inr (result private_title (Some direct_text) None [audio] None private_url), []))"

section \<open>The song handler\<close>

text \<open>The two endpoints (lines 46 to 49); \<open>song_id\<close> is a str, so \<open>{song_id}\<close> is itself.\<close>

definition detail_url :: "pystr \<Rightarrow> pystr" where
  "detail_url song_id =
     lit ''https://music.163.com/api/song/detail/?id='' @ song_id @ lit ''&ids=['' @ song_id @ lit '']''"

definition play_url :: "pystr \<Rightarrow> pystr" where
  "play_url song_id =
     lit ''https://music.163.com/api/song/enhance/player/url?ids=['' @ song_id @ lit '']&br=320000''"

text \<open>
  The messages. Line 54: \<open>[NCM] \<close> U+83B7 U+53D6 U+6B4C U+66F2 U+4FE1 U+606F U+5931 U+8D25
  \<open> HTTP {status}\<close>. Line 79: \<open>[NCM] \<close> U+83B7 U+53D6 U+64AD U+653E U+5730 U+5740 U+5931
  U+8D25 \<open> HTTP {status}\<close>. Line 60: \<open>[NCM] \<close> U+672A U+627E U+5230 U+8BE5 U+6B4C U+66F2.
  Line 85: \<open>[NCM] \<close> U+83B7 U+53D6 U+64AD U+653E U+6570 U+636E U+5931 U+8D25. Line 94:
  \<open>[NCM] \<close> U+8BE5 U+6B4C U+66F2 U+9700 U+8981 \<open>VIP\<close> U+6216 U+5B58 U+5728 U+7248 U+6743
  U+9650 U+5236 U+FF0C U+65E0 U+6CD5 U+83B7 U+53D6 U+64AD U+653E U+5730 U+5740. Line 96:
  \<open>[NCM] \<close> U+65E0 U+6CD5 U+83B7 U+53D6 U+64AD U+653E U+5730 U+5740 \<open> (code={code})\<close>.
  Line 113: U+4E13 U+8F91 U+FF1A \<open>{album_name}\<close>.
\<close>

definition detail_http_error :: "int \<Rightarrow> pystr" where
  "detail_http_error status =
     lit ''[NCM] '' @ [0x83B7, 0x53D6, 0x6B4C, 0x66F2, 0x4FE1, 0x606F, 0x5931, 0x8D25]
       @ lit '' HTTP '' @ py_str_int status"

definition play_http_error :: "int \<Rightarrow> pystr" where
  "play_http_error status =
     lit ''[NCM] '' @ [0x83B7, 0x53D6, 0x64AD, 0x653E, 0x5730, 0x5740, 0x5931, 0x8D25]
       @ lit '' HTTP '' @ py_str_int status"

definition not_found_error :: pystr where
  "not_found_error = lit ''[NCM] '' @ [0x672A, 0x627E, 0x5230, 0x8BE5, 0x6B4C, 0x66F2]"

definition no_play_data_error :: pystr where
  "no_play_data_error =
     lit ''[NCM] '' @ [0x83B7, 0x53D6, 0x64AD, 0x653E, 0x6570, 0x636E, 0x5931, 0x8D25]"

definition restricted_error :: pystr where
  "restricted_error =
     lit ''[NCM] '' @ [0x8BE5, 0x6B4C, 0x66F2, 0x9700, 0x8981] @ lit ''VIP''
       @ [0x6216, 0x5B58, 0x5728, 0x7248, 0x6743, 0x9650, 0x5236, 0xFF0C,
          0x65E0, 0x6CD5, 0x83B7, 0x53D6, 0x64AD, 0x653E, 0x5730, 0x5740]"

definition unavailable_error :: "'f builtins \<Rightarrow> 'f json \<Rightarrow> pystr" where
  "unavailable_error B code =
     lit ''[NCM] '' @ [0x65E0, 0x6CD5, 0x83B7, 0x53D6, 0x64AD, 0x653E, 0x5730, 0x5740]
       @ lit '' (code='' @ py_format B code @ lit '')''"

definition album_prefix :: pystr where
  "album_prefix = [0x4E13, 0x8F91, 0xFF1A]"

text \<open>
  Lines 52 to 55 and 77 to 80: one GET, the status check, the body decoded.
\<close>

definition get_json :: "'f network \<Rightarrow> pystr \<Rightarrow> (int \<Rightarrow> pystr) \<Rightarrow> error + 'f json" where
  "get_json net u failure =
     (case net u of
        NoReply \<Rightarrow> Inl RequestFailed
      | Reply status body \<Rightarrow>
          if status \<ge> 400 then Inl (ClientError (failure status))
          else (case body of None \<Rightarrow> Inl BodyUnreadable | Some j \<Rightarrow> Inr j))"

text \<open>Lines 58 to 62: the first song of the detail response.\<close>

definition first_song :: "'f builtins \<Rightarrow> 'f json \<Rightarrow> error + 'f json" where
  "first_song B detail_json =
     ebind (py_get detail_json (lit ''songs'') (JList [])) (\<lambda>songs.
       if \<not> truthy B songs then Inl (ParseException not_found_error)
       else py_first songs)"

text \<open>Lines 63 to 74: the local variables read from the song.\<close>

record 'f song_info =
  title :: "'f json"
  sub_title :: "'f json"
  album_name :: "'f json"
  cover_url :: "'f json"
  duration_ms :: "'f json"
  author_name :: pystr
  author_avatar :: "'f json"

definition song_fields :: "'f builtins \<Rightarrow> 'f json \<Rightarrow> error + 'f song_info" where
  "song_fields B song =
     ebind (py_get song (lit ''name'') (JStr [])) (\<lambda>title.
     ebind (py_get song (lit ''alias'') JNull) (\<lambda>alias.
     ebind (if truthy B alias
            then ebind (py_get song (lit ''alias'') (JList [JStr []])) py_first
            else Inr (JStr [])) (\<lambda>sub_title.
     ebind (ebind (py_get song (lit ''album'') (JDict []))
              (\<lambda>album. py_get album (lit ''name'') (JStr []))) (\<lambda>album_name.
     ebind (ebind (py_get song (lit ''album'') (JDict []))
              (\<lambda>album. py_get album (lit ''picUrl'') (JStr []))) (\<lambda>cover_url.
     ebind (if truthy B cover_url
            then ebind (py_add_str cover_url (lit ''?param=640y640'')) (\<lambda>s. Inr (JStr s))
            else Inr cover_url) (\<lambda>cover_url.
     ebind (py_get song (lit ''duration'') (JInt 0)) (\<lambda>duration_ms.
     ebind (py_get song (lit ''artists'') (JList [])) (\<lambda>ar_list.
     ebind (ebind (py_iter ar_list) (\<lambda>ars.
              ebind (collect (\<lambda>ar. py_get ar (lit ''name'') (JStr [])) ars)
                (py_join (lit '' / '')))) (\<lambda>author_name.
     ebind (if truthy B ar_list
            then ebind (py_first ar_list) (\<lambda>ar. py_get ar (lit ''img1v1Url'') (JStr []))
            else Inr (JStr [])) (\<lambda>author_avatar.
     Inr \<lparr>title = title, sub_title = sub_title, album_name = album_name,
          cover_url = cover_url, duration_ms = duration_ms,
          author_name = author_name, author_avatar = author_avatar\<rparr>))))))))))"

text \<open>Lines 83 to 96: the audio URL of the first playback entry.\<close>

definition playable_url :: "'f builtins \<Rightarrow> 'f json \<Rightarrow> error + 'f json" where
  "playable_url B play_json =
     ebind (py_get play_json (lit ''data'') (JList [])) (\<lambda>play_data.
       if \<not> truthy B play_data then Inl (ParseException no_play_data_error)
       else
         ebind (py_first play_data) (\<lambda>play_info.
         ebind (py_get play_info (lit ''url'') JNull) (\<lambda>audio_url.
           if \<not> truthy B audio_url then
             ebind (py_get play_info (lit ''code'') (JInt (- 1))) (\<lambda>code.
               if py_eq_int B code 404 then Inl (ParseException restricted_error)
               else Inl (ParseException (unavailable_error B code)))
           else Inr audio_url)))"

text \<open>Lines 99 to 118: the result.\<close>

definition assemble :: "'f builtins \<Rightarrow> pystr \<Rightarrow> 'f song_info \<Rightarrow> 'f json \<Rightarrow> error + 'f parse_result" where
  "assemble B song_id s audio_url =
     (let author = (if author_name s \<noteq> []
                    then Some (create_author (author_name s) (author_avatar s)) else None)
      in
      ebind (py_floordiv B (duration_ms s) 1000) (\<lambda>seconds.
        let audio = create_audio_content audio_url (Some seconds);
            contents = (if truthy B (cover_url s)
                        then create_image_contents [cover_url s] else []) @ [audio]
        in
        ebind (if truthy B (sub_title s)
               then ebind (py_str_add [0xFF08] (sub_title s)) (\<lambda>p. Inr (p @ [0xFF09]))
               else Inr []) (\<lambda>suffix.
          Inr (result
                 (py_format B (title s) @ suffix)
                 (if truthy B (album_name s)
                  then Some (album_prefix @ py_format B (album_name s)) else None)
                 author
                 contents
                 None
                 (lit ''https://music.163.com/#/song?id='' @ song_id)))))"

text \<open>
  The handler (lines 43 to 118; \<open>_parse_song\<close> in the source): the detail request, the
  fields, the playback request, the result. The second component is the list of the
  URLs requested.
\<close>

definition parse_song ::
  "'f builtins \<Rightarrow> 'f network \<Rightarrow> re_match \<Rightarrow> (error + 'f parse_result) \<times> pystr list" where
  "parse_song B net searched =
     (let song_id = group_song_id searched in
      case ebind (get_json net (detail_url song_id) detail_http_error) (\<lambda>detail_json.
             ebind (first_song B detail_json) (song_fields B)) of
        Inl e \<Rightarrow> (Inl e, [detail_url song_id])
      | Inr s \<Rightarrow>
          (ebind (get_json net (play_url song_id) play_http_error) (\<lambda>play_json.
             ebind (playable_url B play_json) (assemble B song_id s)),
           [detail_url song_id, play_url song_id]))"

section \<open>Vocabulary of the properties\<close>

text \<open>
  The object a successful reply carries (status below 400, body a JSON object), and the
  object a list starts with.
\<close>

fun body_dict :: "'f reply \<Rightarrow> (pystr \<times> 'f json) list option" where
  "body_dict (Reply status (Some (JDict d))) = (if status < 400 then Some d else None)"
| "body_dict _ = None"

fun head_dict :: "'f json option \<Rightarrow> (pystr \<times> 'f json) list option" where
  "head_dict (Some (JList (JDict e # rest))) = Some e"
| "head_dict _ = None"

text \<open>
  The detail request of \<open>song_id\<close> is answered with a status below 400 and a JSON object
  whose \<open>songs\<close> is a list starting with the object \<open>song\<close>.
\<close>

definition detail_serves :: "'f network \<Rightarrow> pystr \<Rightarrow> (pystr \<times> 'f json) list \<Rightarrow> bool" where
  "detail_serves net song_id song =
     (case body_dict (net (detail_url song_id)) of
        None \<Rightarrow> False
      | Some d \<Rightarrow> head_dict (map_of d (lit ''songs'')) = Some song)"

text \<open>
  The playback request of \<open>song_id\<close> is answered with a status below 400 and a JSON object
  whose \<open>data\<close> is a list starting with the object \<open>entry\<close>.
\<close>

definition play_serves :: "'f network \<Rightarrow> pystr \<Rightarrow> (pystr \<times> 'f json) list \<Rightarrow> bool" where
  "play_serves net song_id entry =
     (case body_dict (net (play_url song_id)) of
        None \<Rightarrow> False
      | Some d \<Rightarrow> head_dict (map_of d (lit ''data'')) = Some entry)"

text \<open>
  The locals of lines 64 to 74 as functions of the song object, one per local: what
  \<open>song_fields\<close> computes for \<open>sub_title\<close>, \<open>album_name\<close>, \<open>cover_url\<close>, \<open>author_name\<close> and
  \<open>author_avatar\<close> when the song is a dict (lemma \<open>song_fields_dict\<close> below).
\<close>

definition sub_title_of :: "'f builtins \<Rightarrow> (pystr \<times> 'f json) list \<Rightarrow> error + 'f json" where
  "sub_title_of B song =
     (if truthy B (dict_get song (lit ''alias'') JNull)
      then py_first (dict_get song (lit ''alias'') (JList [JStr []]))
      else Inr (JStr []))"

definition album_name_of :: "(pystr \<times> 'f json) list \<Rightarrow> error + 'f json" where
  "album_name_of song = py_get (dict_get song (lit ''album'') (JDict [])) (lit ''name'') (JStr [])"

definition cover_url_of :: "'f builtins \<Rightarrow> (pystr \<times> 'f json) list \<Rightarrow> error + 'f json" where
  "cover_url_of B song =
     ebind (py_get (dict_get song (lit ''album'') (JDict [])) (lit ''picUrl'') (JStr []))
       (\<lambda>cover_url.
          if truthy B cover_url
          then ebind (py_add_str cover_url (lit ''?param=640y640'')) (\<lambda>s. Inr (JStr s))
          else Inr cover_url)"

definition author_name_of :: "(pystr \<times> 'f json) list \<Rightarrow> error + pystr" where
  "author_name_of song =
     ebind (py_iter (dict_get song (lit ''artists'') (JList []))) (\<lambda>ars.
       ebind (collect (\<lambda>ar. py_get ar (lit ''name'') (JStr [])) ars) (py_join (lit '' / '')))"

definition author_avatar_of :: "'f builtins \<Rightarrow> (pystr \<times> 'f json) list \<Rightarrow> error + 'f json" where
  "author_avatar_of B song =
     (if truthy B (dict_get song (lit ''artists'') (JList []))
      then ebind (py_first (dict_get song (lit ''artists'') (JList [])))
             (\<lambda>ar. py_get ar (lit ''img1v1Url'') (JStr []))
      else Inr (JStr []))"

text \<open>
  The optional fields of a song, the song with one of them taken out, and the result
  with the matching part left out.
\<close>

datatype optional_field = Alias | Album | AlbumName | CoverUrl | Author

definition dict_del :: "pystr \<Rightarrow> (pystr \<times> 'f json) list \<Rightarrow> (pystr \<times> 'f json) list" where
  "dict_del k kvs = filter (\<lambda>kv. fst kv \<noteq> k) kvs"

fun on_dict ::
  "((pystr \<times> 'f json) list \<Rightarrow> (pystr \<times> 'f json) list) \<Rightarrow> 'f json \<Rightarrow> 'f json" where
  "on_dict f (JDict al) = JDict (f al)"
| "on_dict f v = v"

definition in_album ::
  "((pystr \<times> 'f json) list \<Rightarrow> (pystr \<times> 'f json) list) \<Rightarrow> (pystr \<times> 'f json) list
     \<Rightarrow> (pystr \<times> 'f json) list" where
  "in_album f song =
     map (\<lambda>kv. if fst kv = lit ''album'' then (fst kv, on_dict f (snd kv)) else kv) song"

fun without :: "optional_field \<Rightarrow> (pystr \<times> 'f json) list \<Rightarrow> (pystr \<times> 'f json) list" where
  "without Alias song = dict_del (lit ''alias'') song"
| "without Album song = dict_del (lit ''album'') song"
| "without AlbumName song = in_album (dict_del (lit ''name'')) song"
| "without CoverUrl song = in_album (dict_del (lit ''picUrl'')) song"
| "without Author song = dict_del (lit ''artists'') song"

fun is_audio :: "'f content \<Rightarrow> bool" where
  "is_audio (AudioContent u d) = True"
| "is_audio (ImageContent u) = False"

fun omitting ::
  "'f builtins \<Rightarrow> (pystr \<times> 'f json) list \<Rightarrow> optional_field \<Rightarrow> 'f parse_result \<Rightarrow> 'f parse_result" where
  "omitting B song Alias r = r\<lparr>r_title := py_format B (dict_get song (lit ''name'') (JStr []))\<rparr>"
| "omitting B song Album r = r\<lparr>r_text := None, r_contents := filter is_audio (r_contents r)\<rparr>"
| "omitting B song AlbumName r = r\<lparr>r_text := None\<rparr>"
| "omitting B song CoverUrl r = r\<lparr>r_contents := filter is_audio (r_contents r)\<rparr>"
| "omitting B song Author r = r\<lparr>r_author := None\<rparr>"

text \<open>
  The song with an optional field present but empty: \<open>blank f v song\<close> gives the field the
  value \<open>v\<close>, and \<open>empty_for B f v\<close> says that \<open>v\<close> is an empty value for the field: a falsy
  value (\<open>None\<close>, the empty str or list, ...) for the alias, the album's name and the
  album's cover URL, the empty object for the album, the empty list for the artists.
\<close>

definition album_of :: "(pystr \<times> 'f json) list \<Rightarrow> (pystr \<times> 'f json) list" where
  "album_of song = (case dict_get song (lit ''album'') (JDict []) of JDict al \<Rightarrow> al | _ \<Rightarrow> [])"

fun blank ::
  "optional_field \<Rightarrow> 'f json \<Rightarrow> (pystr \<times> 'f json) list \<Rightarrow> (pystr \<times> 'f json) list" where
  "blank Alias v song = (lit ''alias'', v) # song"
| "blank Album v song = (lit ''album'', v) # song"
| "blank AlbumName v song = (lit ''album'', JDict ((lit ''name'', v) # album_of song)) # song"
| "blank CoverUrl v song = (lit ''album'', JDict ((lit ''picUrl'', v) # album_of song)) # song"
| "blank Author v song = (lit ''artists'', v) # song"

fun empty_for :: "'f builtins \<Rightarrow> optional_field \<Rightarrow> 'f json \<Rightarrow> bool" where
  "empty_for B Alias v = (\<not> truthy B v)"
| "empty_for B Album v = (v = JDict [])"
| "empty_for B AlbumName v = (\<not> truthy B v)"
| "empty_for B CoverUrl v = (\<not> truthy B v)"
| "empty_for B Author v = (v = JList [])"

text \<open>The name of an artist, as line 73 reads it, when the artist is well formed.\<close>

definition artist_name :: "'f json \<Rightarrow> pystr" where
  "artist_name ar =
     (case ar of
        JDict a \<Rightarrow> (case dict_get a (lit ''name'') (JStr []) of JStr n \<Rightarrow> n | _ \<Rightarrow> [])
      | _ \<Rightarrow> [])"

text \<open>The title of an outcome, for statements about the title alone.\<close>

definition outcome_title :: "(error + 'f parse_result) \<times> pystr list \<Rightarrow> error + pystr" where
  "outcome_title out = (case fst out of Inl e \<Rightarrow> Inl e | Inr r \<Rightarrow> Inr (r_title r))"

section \<open>Example inputs\<close>

definition plain_builtins :: "unit builtins" where
  "plain_builtins =
     \<lparr>float_truthy = (\<lambda>x. True), float_eq_int = (\<lambda>x n. False),
      float_floordiv = (\<lambda>x n. x), format_other = (\<lambda>v. [])\<rparr>"

definition serve :: "pystr \<Rightarrow> 'f reply \<Rightarrow> 'f reply \<Rightarrow> 'f network" where
  "serve song_id detail play u =
     (if u = detail_url song_id then detail
      else if u = play_url song_id then play
      else NoReply)"

definition example_match :: re_match where
  "example_match =
     \<lparr>group0 = lit ''music.163.com/song?id=42'', group_song_id = lit ''42''\<rparr>"

definition example_song :: "(pystr \<times> unit json) list" where
  "example_song =
     [(lit ''name'', JStr (lit ''Song'')),
      (lit ''alias'', JList [JStr (lit ''Alt'')]),
      (lit ''album'', JDict [(lit ''name'', JStr (lit ''LP'')),
                             (lit ''picUrl'', JStr (lit ''http://example/cover.jpg''))]),
      (lit ''duration'', JInt 125499),
      (lit ''artists'', JList [JDict [(lit ''name'', JStr (lit ''Ann'')),
                                      (lit ''img1v1Url'', JStr (lit ''http://example/ann.jpg''))],
                               JDict [(lit ''name'', JStr (lit ''Bob''))]])]"

definition detail_of :: "(pystr \<times> unit json) list \<Rightarrow> unit reply" where
  "detail_of song = Reply 200 (Some (JDict [(lit ''songs'', JList [JDict song])]))"

definition play_of :: "(pystr \<times> unit json) list \<Rightarrow> unit reply" where
  "play_of entry = Reply 200 (Some (JDict [(lit ''data'', JList [JDict entry])]))"

definition example_entry :: "(pystr \<times> unit json) list" where
  "example_entry = [(lit ''url'', JStr (lit ''http://example/a.mp3'')), (lit ''code'', JInt 200)]"

definition example_net :: "unit network" where
  "example_net = serve (lit ''42'') (detail_of example_song) (play_of example_entry)"

definition example_result :: "unit parse_result" where
  "example_result =
     \<lparr>r_title = lit ''Song'' @ [0xFF08] @ lit ''Alt'' @ [0xFF09],
      r_text = Some (album_prefix @ lit ''LP''),
      r_author = Some \<lparr>au_name = lit ''Ann'' @ lit '' / '' @ lit ''Bob'',
                        au_avatar = JStr (lit ''http://example/ann.jpg'')\<rparr>,
      r_contents = [ImageContent (JStr (lit ''http://example/cover.jpg'' @ lit ''?param=640y640'')),
                    AudioContent (JStr (lit ''http://example/a.mp3'')) (Some (JInt 125))],
      r_timestamp = None,
      r_url = lit ''https://music.163.com/#/song?id='' @ lit ''42''\<rparr>"

definition bare_song :: "(pystr \<times> unit json) list" where
  "bare_song = [(lit ''name'', JStr (lit ''Song''))]"

definition bare_net :: "unit network" where
  "bare_net = serve (lit ''42'') (detail_of bare_song) (play_of example_entry)"

definition bare_result :: "unit parse_result" where
  "bare_result =
     \<lparr>r_title = lit ''Song'',
      r_text = None,
      r_author = None,
      r_contents = [AudioContent (JStr (lit ''http://example/a.mp3'')) (Some (JInt 0))],
      r_timestamp = None,
      r_url = lit ''https://music.163.com/#/song?id='' @ lit ''42''\<rparr>"

definition empty_alias_song :: "(pystr \<times> unit json) list" where
  "empty_alias_song = [(lit ''name'', JStr (lit ''Song'')), (lit ''alias'', JList [JStr []])]"

definition empty_alias_net :: "unit network" where
  "empty_alias_net = serve (lit ''42'') (detail_of empty_alias_song) (play_of example_entry)"

definition null_album_song :: "(pystr \<times> unit json) list" where
  "null_album_song = [(lit ''name'', JStr (lit ''Song'')), (lit ''album'', JNull)]"

definition null_album_net :: "unit network" where
  "null_album_net = serve (lit ''42'') (detail_of null_album_song) (play_of example_entry)"

definition null_artists_song :: "(pystr \<times> unit json) list" where
  "null_artists_song = [(lit ''name'', JStr (lit ''Song'')), (lit ''artists'', JNull)]"

definition null_artists_net :: "unit network" where
  "null_artists_net = serve (lit ''42'') (detail_of null_artists_song) (play_of example_entry)"

section \<open>Lemmas\<close>

lemma ebind_Inl [simp]: "ebind (Inl e) f = Inl e"
  by (simp add: ebind_def)

lemma ebind_Inr [simp]: "ebind (Inr x) f = f x"
  by (simp add: ebind_def)

lemma ebind_eq_Inr: "ebind m f = Inr y \<longleftrightarrow> (\<exists>x. m = Inr x \<and> f x = Inr y)"
  by (cases m) simp_all

lemma lit_eq_iff [simp]: "lit s = lit t \<longleftrightarrow> s = t"
  by (simp add: lit_def inj_map_eq_map inj_on_def)

lemma lit_Nil_iff [simp]: "lit s = [] \<longleftrightarrow> s = []" "[] = lit s \<longleftrightarrow> s = []"
  by (auto simp add: lit_def)

lemma detail_url_neq_play_url [simp]: "detail_url a \<noteq> play_url b" "play_url b \<noteq> detail_url a"
  by (simp_all add: detail_url_def play_url_def lit_def)

lemma serve_detail [simp]: "serve sid d p (detail_url sid) = d"
  by (simp add: serve_def)

lemma serve_play [simp]: "serve sid d p (play_url sid) = p"
  by (simp add: serve_def)

lemma dict_get_Nil [simp]: "dict_get [] k d = d"
  by (simp add: dict_get_def)

lemma dict_get_Cons [simp]: "dict_get ((k', v) # kvs) k d = (if k' = k then v else dict_get kvs k d)"
  by (simp add: dict_get_def)

lemma example_fields:
  "song_fields plain_builtins (JDict example_song) =
     Inr \<lparr>title = JStr (lit ''Song''), sub_title = JStr (lit ''Alt''), album_name = JStr (lit ''LP''),
          cover_url = JStr (lit ''http://example/cover.jpg'' @ lit ''?param=640y640''),
          duration_ms = JInt 125499, author_name = lit ''Ann'' @ lit '' / '' @ lit ''Bob'',
          author_avatar = JStr (lit ''http://example/ann.jpg'')\<rparr>"
  by (simp add: song_fields_def example_song_def py_join_def)

lemma example_run:
  "parse_song plain_builtins example_net example_match
     = (Inr example_result, [detail_url (lit ''42''), play_url (lit ''42'')])"
  by (simp add: parse_song_def example_net_def example_match_def get_json_def detail_of_def play_of_def
      first_song_def example_fields playable_url_def example_entry_def assemble_def example_result_def
      create_author_def create_audio_content_def create_image_contents_def result_def Let_def)


lemma get_json_eq_Inr:
  "get_json net u failure = Inr j \<longleftrightarrow> (\<exists>status. net u = Reply status (Some j) \<and> status < 400)"
  by (auto simp add: get_json_def split: reply.splits option.splits)

lemma py_get_eq_Inr: "py_get v k d = Inr x \<longleftrightarrow> (\<exists>kvs. v = JDict kvs \<and> x = dict_get kvs k d)"
  by (cases v) auto

lemma py_first_eq_Inr_dict:
  "py_first v = Inr (JDict e) \<longleftrightarrow> (\<exists>rest. v = JList (JDict e # rest))"
proof (cases v)
  case (JList xs)
  then show ?thesis by (cases xs) auto
next
  case (JStr cs)
  then show ?thesis by (cases cs) auto
qed auto

lemma dict_get_eq_list:
  "dict_get d k (JList []) = JList (x # xs) \<longleftrightarrow> map_of d k = Some (JList (x # xs))"
  by (simp add: dict_get_def split: option.splits)

lemma song_fields_Inr_is_dict: "song_fields B song = Inr info \<Longrightarrow> \<exists>s. song = JDict s"
  by (cases song) (simp_all add: song_fields_def)

lemma first_song_eq_Inr_dict:
  "first_song B dj = Inr (JDict s) \<longleftrightarrow>
     (\<exists>d rest. dj = JDict d \<and> map_of d (lit ''songs'') = Some (JList (JDict s # rest)))"
  by (cases dj)
     (auto simp add: first_song_def py_first_eq_Inr_dict dict_get_eq_list split: if_splits,
      simp add: dict_get_def)

lemma body_dict_eq_Some:
  "body_dict r = Some d \<longleftrightarrow> (\<exists>status. r = Reply status (Some (JDict d)) \<and> status < 400)"
  by (cases r rule: body_dict.cases) auto

lemma head_dict_eq_Some:
  "head_dict x = Some e \<longleftrightarrow> (\<exists>rest. x = Some (JList (JDict e # rest)))"
  by (cases x rule: head_dict.cases) auto

lemma detail_serves_iff:
  "detail_serves net sid song \<longleftrightarrow>
     (\<exists>status d rest. net (detail_url sid) = Reply status (Some (JDict d)) \<and> status < 400
        \<and> map_of d (lit ''songs'') = Some (JList (JDict song # rest)))"
  by (auto simp add: detail_serves_def body_dict_eq_Some head_dict_eq_Some split: option.splits)

lemma play_serves_iff:
  "play_serves net sid entry \<longleftrightarrow>
     (\<exists>status d rest. net (play_url sid) = Reply status (Some (JDict d)) \<and> status < 400
        \<and> map_of d (lit ''data'') = Some (JList (JDict entry # rest)))"
  by (auto simp add: play_serves_def body_dict_eq_Some head_dict_eq_Some split: option.splits)

lemma detail_stage:
  assumes "detail_serves net sid song"
  shows "ebind (get_json net (detail_url sid) detail_http_error)
           (\<lambda>detail_json. ebind (first_song B detail_json) (song_fields B))
         = song_fields B (JDict song)"
proof -
  from assms obtain status d rest where
    n: "net (detail_url sid) = Reply status (Some (JDict d))" and s: "status < 400"
    and m: "map_of d (lit ''songs'') = Some (JList (JDict song # rest))"
    by (auto simp add: detail_serves_iff)
  have "get_json net (detail_url sid) detail_http_error = Inr (JDict d)"
    using n s by (simp add: get_json_eq_Inr)
  moreover have "first_song B (JDict d) = Inr (JDict song)"
    using m by (simp add: first_song_eq_Inr_dict)
  ultimately show ?thesis by simp
qed

lemma detail_stage_Inr:
  assumes "ebind (get_json net (detail_url sid) detail_http_error)
           (\<lambda>detail_json. ebind (first_song B detail_json) (song_fields B)) = Inr info"
  shows "\<exists>song. detail_serves net sid song \<and> song_fields B (JDict song) = Inr info"
proof -
  from assms obtain dj sg where g: "get_json net (detail_url sid) detail_http_error = Inr dj"
    and f: "first_song B dj = Inr sg" and sf: "song_fields B sg = Inr info"
    by (auto simp add: ebind_eq_Inr)
  from sf obtain s where sg: "sg = JDict s" by (auto dest: song_fields_Inr_is_dict)
  from f sg obtain d rest where "dj = JDict d" "map_of d (lit ''songs'') = Some (JList (JDict s # rest))"
    by (auto simp add: first_song_eq_Inr_dict)
  with g have "detail_serves net sid s"
    by (auto simp add: detail_serves_iff get_json_eq_Inr)
  with sf sg show ?thesis by auto
qed

lemma playable_url_dict:
  "playable_url B (JDict d) =
     (let play_data = dict_get d (lit ''data'') (JList []) in
      if \<not> truthy B play_data then Inl (ParseException no_play_data_error)
      else ebind (py_first play_data) (\<lambda>play_info.
           ebind (py_get play_info (lit ''url'') JNull) (\<lambda>audio_url.
             if \<not> truthy B audio_url then
               ebind (py_get play_info (lit ''code'') (JInt (- 1))) (\<lambda>code.
                 if py_eq_int B code 404 then Inl (ParseException restricted_error)
                 else Inl (ParseException (unavailable_error B code)))
             else Inr audio_url)))"
  by (simp add: playable_url_def)

lemma playable_url_first_entry:
  assumes "map_of d (lit ''data'') = Some (JList (JDict entry # rest))"
  shows "playable_url B (JDict d) =
     (let audio_url = dict_get entry (lit ''url'') JNull; code = dict_get entry (lit ''code'') (JInt (- 1)) in
      if truthy B audio_url then Inr audio_url
      else if py_eq_int B code 404 then Inl (ParseException restricted_error)
      else Inl (ParseException (unavailable_error B code)))"
  using assms by (simp add: playable_url_def dict_get_def Let_def)

lemma playable_url_eq_Inr:
  "playable_url B pj = Inr u \<longleftrightarrow>
     (\<exists>d entry rest. pj = JDict d \<and> map_of d (lit ''data'') = Some (JList (JDict entry # rest))
        \<and> u = dict_get entry (lit ''url'') JNull \<and> truthy B u)"
proof
  assume a: "playable_url B pj = Inr u"
  then obtain d where pj: "pj = JDict d"
    by (cases pj) (simp_all add: playable_url_def)
  let ?pd = "dict_get d (lit ''data'') (JList [])"
  from a pj have t: "truthy B ?pd"
    by (simp add: playable_url_def split: if_splits)
  from a pj t obtain info where pf: "py_first ?pd = Inr info"
    by (cases "py_first ?pd") (simp_all add: playable_url_def)
  from a pj t pf obtain entry where info: "info = JDict entry"
    by (cases info) (simp_all add: playable_url_def)
  from pf info obtain rest where "?pd = JList (JDict entry # rest)"
    by (auto simp add: py_first_eq_Inr_dict)
  then have m: "map_of d (lit ''data'') = Some (JList (JDict entry # rest))"
    by (simp add: dict_get_eq_list)
  from a pj have "u = dict_get entry (lit ''url'') JNull \<and> truthy B u"
    by (auto simp add: playable_url_first_entry [OF m] Let_def split: if_splits)
  with pj m show "\<exists>d entry rest. pj = JDict d \<and> map_of d (lit ''data'') = Some (JList (JDict entry # rest))
        \<and> u = dict_get entry (lit ''url'') JNull \<and> truthy B u" by blast
next
  assume "\<exists>d entry rest. pj = JDict d \<and> map_of d (lit ''data'') = Some (JList (JDict entry # rest))
        \<and> u = dict_get entry (lit ''url'') JNull \<and> truthy B u"
  then show "playable_url B pj = Inr u"
    by (auto simp add: playable_url_first_entry Let_def)
qed

lemma parse_song_served:
  assumes "detail_serves net (group_song_id m) song"
  shows "parse_song B net m =
     (case song_fields B (JDict song) of
        Inl e \<Rightarrow> (Inl e, [detail_url (group_song_id m)])
      | Inr s \<Rightarrow>
          (ebind (get_json net (play_url (group_song_id m)) play_http_error) (\<lambda>play_json.
             ebind (playable_url B play_json) (assemble B (group_song_id m) s)),
           [detail_url (group_song_id m), play_url (group_song_id m)]))"
  by (simp add: parse_song_def Let_def detail_stage [OF assms])

lemma parse_song_eq_Inr:
  "parse_song B net m = (Inr r, tr) \<longleftrightarrow>
     (\<exists>song info entry.
        detail_serves net (group_song_id m) song \<and> song_fields B (JDict song) = Inr info
        \<and> play_serves net (group_song_id m) entry
        \<and> truthy B (dict_get entry (lit ''url'') JNull)
        \<and> assemble B (group_song_id m) info (dict_get entry (lit ''url'') JNull) = Inr r
        \<and> tr = [detail_url (group_song_id m), play_url (group_song_id m)])"
  (is "?L \<longleftrightarrow> ?R")
proof
  assume l: ?L
  let ?sid = "group_song_id m"
  let ?stage = "ebind (get_json net (detail_url ?sid) detail_http_error)
           (\<lambda>detail_json. ebind (first_song B detail_json) (song_fields B))"
  from l obtain info where st: "?stage = Inr info"
    by (cases ?stage) (simp_all add: parse_song_def Let_def)
  then obtain song where ds: "detail_serves net ?sid song" and sf: "song_fields B (JDict song) = Inr info"
    by (auto dest: detail_stage_Inr)
  from l st have p: "ebind (get_json net (play_url ?sid) play_http_error) (\<lambda>play_json.
             ebind (playable_url B play_json) (assemble B ?sid info)) = Inr r"
    and tr: "tr = [detail_url ?sid, play_url ?sid]"
    by (simp_all add: parse_song_def Let_def)
  from p obtain pj u where g: "get_json net (play_url ?sid) play_http_error = Inr pj"
    and pu: "playable_url B pj = Inr u" and a: "assemble B ?sid info u = Inr r"
    by (auto simp add: ebind_eq_Inr)
  from pu obtain d entry rest where "pj = JDict d" "map_of d (lit ''data'') = Some (JList (JDict entry # rest))"
     "u = dict_get entry (lit ''url'') JNull" "truthy B u"
    by (auto simp add: playable_url_eq_Inr)
  with g a have "play_serves net ?sid entry \<and> truthy B (dict_get entry (lit ''url'') JNull)
      \<and> assemble B ?sid info (dict_get entry (lit ''url'') JNull) = Inr r"
    by (auto simp add: play_serves_iff get_json_eq_Inr)
  with ds sf tr show ?R by blast
next
  assume ?R
  then obtain song info entry where ds: "detail_serves net (group_song_id m) song"
    and sf: "song_fields B (JDict song) = Inr info"
    and ps: "play_serves net (group_song_id m) entry"
    and t: "truthy B (dict_get entry (lit ''url'') JNull)"
    and a: "assemble B (group_song_id m) info (dict_get entry (lit ''url'') JNull) = Inr r"
    and tr: "tr = [detail_url (group_song_id m), play_url (group_song_id m)]"
    by blast
  from ps obtain status d rest where n: "net (play_url (group_song_id m)) = Reply status (Some (JDict d))"
    and s: "status < 400" and md: "map_of d (lit ''data'') = Some (JList (JDict entry # rest))"
    by (auto simp add: play_serves_iff)
  have g: "get_json net (play_url (group_song_id m)) play_http_error = Inr (JDict d)"
    using n s by (simp add: get_json_eq_Inr)
  have pu: "playable_url B (JDict d) = Inr (dict_get entry (lit ''url'') JNull)"
    using md t by (simp add: playable_url_first_entry Let_def)
  show ?L
    by (simp add: parse_song_served [OF ds] sf g pu a tr)
qed

lemma ebind_eq_Inl: "ebind m f = Inl e \<longleftrightarrow> m = Inl e \<or> (\<exists>x. m = Inr x \<and> f x = Inl e)"
  by (cases m) simp_all

lemma serve_detail_serves [simp]: "detail_serves (serve sid (detail_of song) p) sid song"
  by (simp add: detail_serves_def detail_of_def)

lemma serve_play_serves [simp]: "play_serves (serve sid d (play_of entry)) sid entry"
  by (simp add: play_serves_def play_of_def)

lemma example_song_id [simp]: "group_song_id example_match = lit ''42''"
  by (simp add: example_match_def)

lemma get_json_eq_ClientError:
  "get_json net u failure = Inl (ClientError msg) \<longleftrightarrow>
     (\<exists>status body. net u = Reply status body \<and> 400 \<le> status \<and> msg = failure status)"
  by (auto simp add: get_json_def split: reply.splits option.splits)

lemma py_get_no_ClientError [simp]: "py_get v k d \<noteq> Inl (ClientError msg)"
  by (cases v) simp_all

lemma py_first_no_ClientError [simp]: "py_first v \<noteq> Inl (ClientError msg)"
  by (cases v rule: py_first.cases) simp_all

lemma py_add_str_no_ClientError [simp]: "py_add_str v s \<noteq> Inl (ClientError msg)"
  by (cases v) simp_all

lemma py_str_add_no_ClientError [simp]: "py_str_add s v \<noteq> Inl (ClientError msg)"
  by (cases v) simp_all

lemma py_iter_no_ClientError [simp]: "py_iter v \<noteq> Inl (ClientError msg)"
  by (cases v) simp_all

lemma py_floordiv_no_ClientError [simp]: "py_floordiv B v n \<noteq> Inl (ClientError msg)"
  by (cases v) simp_all

lemma as_str_no_ClientError [simp]: "as_str v \<noteq> Inl (ClientError msg)"
  by (cases v) simp_all

lemma collect_no_ClientError:
  "(\<And>x. f x \<noteq> Inl (ClientError msg)) \<Longrightarrow> collect f xs \<noteq> Inl (ClientError msg)"
  by (induction xs) (auto simp add: ebind_eq_Inl)

lemma py_join_no_ClientError [simp]: "py_join sep items \<noteq> Inl (ClientError msg)"
  by (simp add: py_join_def ebind_eq_Inl collect_no_ClientError)

lemma collect_names_no_ClientError [simp]:
  "collect (\<lambda>ar. py_get ar k d) ars \<noteq> Inl (ClientError msg)"
  by (rule collect_no_ClientError) simp

lemma first_song_no_ClientError [simp]: "first_song B dj \<noteq> Inl (ClientError msg)"
  by (simp add: first_song_def ebind_eq_Inl)

lemma song_fields_no_ClientError [simp]: "song_fields B song \<noteq> Inl (ClientError msg)"
  by (simp add: song_fields_def ebind_eq_Inl)

lemma playable_url_no_ClientError [simp]: "playable_url B pj \<noteq> Inl (ClientError msg)"
  by (simp add: playable_url_def ebind_eq_Inl)

lemma assemble_no_ClientError [simp]: "assemble B sid s u \<noteq> Inl (ClientError msg)"
  by (simp add: assemble_def ebind_eq_Inl Let_def)

lemma http_404 [simp]: "lit '' HTTP '' @ py_str_int 404 = lit '' HTTP 404''"
  by (simp add: lit_def py_str_int_def dec_digits.simps)

lemma http_500 [simp]: "lit '' HTTP '' @ py_str_int 500 = lit '' HTTP 500''"
  by (simp add: lit_def py_str_int_def dec_digits.simps)

lemma detail_serves_unique:
  "detail_serves net sid s \<Longrightarrow> detail_serves net sid s' \<Longrightarrow> s = s'"
  by (auto simp add: detail_serves_def split: option.splits)

lemma py_add_str_eq_Inr: "py_add_str v s = Inr x \<longleftrightarrow> (\<exists>p. v = JStr p \<and> x = p @ s)"
  by (cases v) auto

lemma py_str_add_eq_Inr: "py_str_add s v = Inr x \<longleftrightarrow> (\<exists>p. v = JStr p \<and> x = s @ p)"
  by (cases v) auto

lemma ebind_assoc: "ebind (ebind m f) g = ebind m (\<lambda>x. ebind (f x) g)"
  by (cases m) simp_all

lemma ebind_if: "ebind (if c then a else b) f = (if c then ebind a f else ebind b f)"
  by simp

lemma song_fields_dict:
  "song_fields B (JDict song) =
     ebind (sub_title_of B song) (\<lambda>sub.
     ebind (album_name_of song) (\<lambda>an.
     ebind (cover_url_of B song) (\<lambda>cover.
     ebind (author_name_of song) (\<lambda>au.
     ebind (author_avatar_of B song) (\<lambda>av.
       Inr \<lparr>title = dict_get song (lit ''name'') (JStr []), sub_title = sub,
            album_name = an, cover_url = cover,
            duration_ms = dict_get song (lit ''duration'') (JInt 0),
            author_name = au, author_avatar = av\<rparr>)))))"
  by (simp add: song_fields_def sub_title_of_def album_name_of_def cover_url_of_def
      author_name_of_def author_avatar_of_def ebind_assoc ebind_if)

lemma song_fields_eq_Inr:
  "song_fields B (JDict song) = Inr info \<longleftrightarrow>
     (\<exists>sub an cover au av.
        sub_title_of B song = Inr sub \<and> album_name_of song = Inr an
      \<and> cover_url_of B song = Inr cover \<and> author_name_of song = Inr au
      \<and> author_avatar_of B song = Inr av
      \<and> info = \<lparr>title = dict_get song (lit ''name'') (JStr []), sub_title = sub,
            album_name = an, cover_url = cover,
            duration_ms = dict_get song (lit ''duration'') (JInt 0),
            author_name = au, author_avatar = av\<rparr>)"
  unfolding song_fields_dict ebind_eq_Inr by blast

lemma assemble_eq_Inr:
  "assemble B sid info u = Inr r \<longleftrightarrow>
     (\<exists>secs suffix.
        py_floordiv B (duration_ms info) 1000 = Inr secs
      \<and> (if truthy B (sub_title info)
         then (\<exists>s. sub_title info = JStr s \<and> suffix = [0xFF08] @ s @ [0xFF09])
         else suffix = [])
      \<and> r = \<lparr>r_title = py_format B (title info) @ suffix,
              r_text = (if truthy B (album_name info)
                        then Some (album_prefix @ py_format B (album_name info)) else None),
              r_author = (if author_name info \<noteq> []
                          then Some \<lparr>au_name = author_name info, au_avatar = author_avatar info\<rparr>
                          else None),
              r_contents = (if truthy B (cover_url info) then [ImageContent (cover_url info)] else [])
                             @ [AudioContent u (Some secs)],
              r_timestamp = None,
              r_url = lit ''https://music.163.com/#/song?id='' @ sid\<rparr>)"
  unfolding assemble_def Let_def create_author_def create_audio_content_def
    create_image_contents_def result_def
  by (cases "truthy B (sub_title info)")
     (auto simp add: ebind_eq_Inr py_str_add_eq_Inr)

lemma parse_song_success:
  assumes "detail_serves net (group_song_id m) song"
    and "parse_song B net m = (Inr r, tr)"
  obtains info entry where
    "song_fields B (JDict song) = Inr info"
    "play_serves net (group_song_id m) entry"
    "truthy B (dict_get entry (lit ''url'') JNull)"
    "assemble B (group_song_id m) info (dict_get entry (lit ''url'') JNull) = Inr r"
    "tr = [detail_url (group_song_id m), play_url (group_song_id m)]"
proof -
  from assms(2) obtain song' info entry where
    d: "detail_serves net (group_song_id m) song'" and f: "song_fields B (JDict song') = Inr info"
    and rest: "play_serves net (group_song_id m) entry"
      "truthy B (dict_get entry (lit ''url'') JNull)"
      "assemble B (group_song_id m) info (dict_get entry (lit ''url'') JNull) = Inr r"
      "tr = [detail_url (group_song_id m), play_url (group_song_id m)]"
    unfolding parse_song_eq_Inr by blast
  from d assms(1) have "song' = song" by (rule detail_serves_unique)
  with f rest that show thesis by blast
qed

lemma lit_append: "lit a @ lit b = lit (a @ b)"
  by (simp add: lit_def)

lemma example_served [simp]:
  "detail_serves example_net (lit ''42'') example_song"
  "play_serves example_net (lit ''42'') example_entry"
  by (simp_all add: example_net_def)

lemma bare_served [simp]:
  "detail_serves bare_net (lit ''42'') bare_song"
  "play_serves bare_net (lit ''42'') example_entry"
  by (simp_all add: bare_net_def)

lemma empty_alias_served [simp]:
  "detail_serves empty_alias_net (lit ''42'') empty_alias_song"
  "play_serves empty_alias_net (lit ''42'') example_entry"
  by (simp_all add: empty_alias_net_def)

lemma play_stage_example:
  "play_serves net sid example_entry \<Longrightarrow>
   ebind (get_json net (play_url sid) play_http_error) (\<lambda>play_json.
     ebind (playable_url plain_builtins play_json) f)
   = f (JStr (lit ''http://example/a.mp3''))"
  by (auto simp add: play_serves_iff get_json_def playable_url_first_entry example_entry_def Let_def)

lemma bare_fields:
  "song_fields plain_builtins (JDict bare_song) =
     Inr \<lparr>title = JStr (lit ''Song''), sub_title = JStr [], album_name = JStr [],
          cover_url = JStr [], duration_ms = JInt 0, author_name = [],
          author_avatar = JStr []\<rparr>"
  by (simp add: song_fields_def bare_song_def py_join_def)

lemma bare_run:
  "parse_song plain_builtins bare_net example_match
     = (Inr bare_result, [detail_url (lit ''42''), play_url (lit ''42'')])"
  by (simp add: parse_song_served [where song = bare_song] bare_fields play_stage_example
      assemble_def bare_result_def create_audio_content_def result_def Let_def)

lemma empty_alias_fields:
  "song_fields plain_builtins (JDict empty_alias_song) =
     Inr \<lparr>title = JStr (lit ''Song''), sub_title = JStr [], album_name = JStr [],
          cover_url = JStr [], duration_ms = JInt 0, author_name = [],
          author_avatar = JStr []\<rparr>"
  by (simp add: song_fields_def empty_alias_song_def py_join_def)

lemma empty_alias_run:
  "parse_song plain_builtins empty_alias_net example_match
     = (Inr bare_result, [detail_url (lit ''42''), play_url (lit ''42'')])"
  by (simp add: parse_song_served [where song = empty_alias_song] empty_alias_fields
      play_stage_example assemble_def bare_result_def create_audio_content_def result_def Let_def)

lemma cover_url_of_eq_Inr:
  assumes "dict_get song (lit ''album'') (JDict []) = JDict album"
  shows "cover_url_of B song = Inr cover \<longleftrightarrow>
     (if truthy B (dict_get album (lit ''picUrl'') (JStr []))
      then (\<exists>p. dict_get album (lit ''picUrl'') (JStr []) = JStr p
              \<and> cover = JStr (p @ lit ''?param=640y640''))
      else cover = dict_get album (lit ''picUrl'') (JStr []))"
  by (auto simp add: cover_url_of_def assms ebind_eq_Inr py_add_str_eq_Inr)

lemma sub_title_of_alias_list:
  "map_of song (lit ''alias'') = Some (JList (a # rest)) \<Longrightarrow> sub_title_of B song = Inr a"
  by (simp add: sub_title_of_def dict_get_def)

lemma sub_title_of_no_alias:
  "\<not> truthy B (dict_get song (lit ''alias'') JNull) \<Longrightarrow> sub_title_of B song = Inr (JStr [])"
  by (simp add: sub_title_of_def)

lemma collect_names:
  "collect (\<lambda>ar. py_get ar (lit ''name'') (JStr [])) ars = Inr names \<Longrightarrow>
   collect as_str names = Inr ss \<Longrightarrow>
   ss = map artist_name ars
   \<and> (\<forall>ar \<in> set ars. \<exists>a n. ar = JDict a \<and> dict_get a (lit ''name'') (JStr []) = JStr n)"
proof (induction ars arbitrary: names ss)
  case Nil
  then show ?case by simp
next
  case (Cons ar ars)
  from Cons.prems(1) obtain x xs where
    x: "py_get ar (lit ''name'') (JStr []) = Inr x"
    and xs: "collect (\<lambda>ar. py_get ar (lit ''name'') (JStr [])) ars = Inr xs"
    and names: "names = x # xs"
    by (auto simp add: ebind_eq_Inr)
  from Cons.prems(2) names obtain y ys where
    y: "as_str x = Inr y" and ys: "collect as_str xs = Inr ys" and ss: "ss = y # ys"
    by (auto simp add: ebind_eq_Inr)
  from x obtain a where a: "ar = JDict a" "x = dict_get a (lit ''name'') (JStr [])"
    by (auto simp add: py_get_eq_Inr)
  from y have xy: "x = JStr y" by (cases x) simp_all
  from a xy have dn: "dict_get a (lit ''name'') (JStr []) = JStr y" by simp
  with a have "artist_name ar = y"
    by (simp add: artist_name_def)
  moreover from Cons.IH [OF xs ys] have "ys = map artist_name ars"
    and "\<forall>ar \<in> set ars. \<exists>a n. ar = JDict a \<and> dict_get a (lit ''name'') (JStr []) = JStr n"
    by simp_all
  ultimately show ?case using ss a dn by auto
qed

lemma author_name_of_list:
  assumes "dict_get song (lit ''artists'') (JList []) = JList ars"
    and "author_name_of song = Inr au"
  shows "au = join (lit '' / '') (map artist_name ars)
     \<and> (\<forall>ar \<in> set ars. \<exists>a n. ar = JDict a \<and> dict_get a (lit ''name'') (JStr []) = JStr n)"
proof -
  from assms obtain names ss where
    "collect (\<lambda>ar. py_get ar (lit ''name'') (JStr [])) ars = Inr names"
    "collect as_str names = Inr ss" "au = join (lit '' / '') ss"
    by (auto simp add: author_name_of_def py_join_def ebind_eq_Inr)
  then show ?thesis using collect_names by blast
qed

lemma author_avatar_of_list:
  assumes "dict_get song (lit ''artists'') (JList []) = JList ars"
    and "author_avatar_of B song = Inr av"
    and "\<forall>ar \<in> set ars. \<exists>a. ar = JDict a"
  shows "av = (case ars of JDict a # rest \<Rightarrow> dict_get a (lit ''img1v1Url'') (JStr []) | _ \<Rightarrow> JStr [])"
proof (cases ars)
  case Nil
  with assms(1,2) show ?thesis by (simp add: author_avatar_of_def)
next
  case (Cons ar rest)
  with assms(3) obtain a where "ar = JDict a" by auto
  with Cons assms(1,2) show ?thesis by (simp add: author_avatar_of_def)
qed

lemma example_artist_names:
  "artist_name (JDict [(lit ''name'', JStr (lit ''Ann'')),
                       (lit ''img1v1Url'', JStr (lit ''http://example/ann.jpg''))] :: unit json) = lit ''Ann''"
  "artist_name (JDict [(lit ''name'', JStr (lit ''Bob''))] :: unit json) = lit ''Bob''"
  by (simp_all add: artist_name_def)

lemma map_of_dict_del: "map_of (dict_del k kvs) k' = (if k' = k then None else map_of kvs k')"
  by (induction kvs) (auto simp add: dict_del_def)

lemma dict_get_dict_del:
  "dict_get (dict_del k kvs) k' d = (if k' = k then d else dict_get kvs k' d)"
  by (simp add: dict_get_def map_of_dict_del)

lemma map_of_in_album:
  "map_of (in_album f song) k =
     (if k = lit ''album''
      then map_option (on_dict f) (map_of song k)
      else map_of song k)"
  by (induction song) (auto simp add: in_album_def)

lemma dict_get_in_album_other:
  "k \<noteq> lit ''album'' \<Longrightarrow> dict_get (in_album f song) k d = dict_get song k d"
  by (simp add: dict_get_def map_of_in_album)

lemma dict_get_in_album:
  "dict_get song (lit ''album'') (JDict []) = JDict al \<Longrightarrow> f [] = [] \<Longrightarrow>
   dict_get (in_album f song) (lit ''album'') (JDict []) = JDict (f al)"
  by (auto simp add: dict_get_def map_of_in_album split: option.splits)

lemma album_name_of_eq_Inr:
  "album_name_of song = Inr an \<longleftrightarrow>
     (\<exists>al. dict_get song (lit ''album'') (JDict []) = JDict al
         \<and> an = dict_get al (lit ''name'') (JStr []))"
  by (auto simp add: album_name_of_def py_get_eq_Inr)

lemma cover_url_of_Inr_album:
  "cover_url_of B song = Inr cover \<Longrightarrow> \<exists>al. dict_get song (lit ''album'') (JDict []) = JDict al"
  by (auto simp add: cover_url_of_def ebind_eq_Inr py_get_eq_Inr)

lemma dict_del_Nil [simp]: "dict_del k [] = []"
  by (simp add: dict_del_def)

text \<open>Each local of the song without one optional field.\<close>

lemma sub_title_of_without:
  "sub_title_of B (without f song) = (if f = Alias then Inr (JStr []) else sub_title_of B song)"
  by (cases f)
     (simp_all add: sub_title_of_def dict_get_dict_del dict_get_in_album_other)

lemma album_name_of_without:
  assumes "album_name_of song = Inr an"
  shows "album_name_of (without f song)
           = Inr (if f = Album \<or> f = AlbumName then JStr [] else an)"
proof -
  from assms obtain al where al: "dict_get song (lit ''album'') (JDict []) = JDict al"
    and an: "an = dict_get al (lit ''name'') (JStr [])"
    by (auto simp add: album_name_of_eq_Inr)
  show ?thesis
  proof (cases f)
    case AlbumName
    with al show ?thesis
      by (simp add: album_name_of_def dict_get_in_album dict_get_dict_del)
  next
    case CoverUrl
    with al an show ?thesis
      by (simp add: album_name_of_def dict_get_in_album dict_get_dict_del)
  qed (use al an in \<open>simp_all add: album_name_of_def dict_get_dict_del\<close>)
qed

lemma cover_url_of_without:
  assumes "cover_url_of B song = Inr cover"
  shows "cover_url_of B (without f song)
           = Inr (if f = Album \<or> f = CoverUrl then JStr [] else cover)"
proof -
  from assms obtain al where al: "dict_get song (lit ''album'') (JDict []) = JDict al"
    by (auto dest: cover_url_of_Inr_album)
  show ?thesis
  proof (cases f)
    case AlbumName
    with al assms show ?thesis
      by (simp add: cover_url_of_def dict_get_in_album dict_get_dict_del)
  next
    case CoverUrl
    with al show ?thesis
      by (simp add: cover_url_of_def dict_get_in_album dict_get_dict_del)
  qed (use al assms in \<open>simp_all add: cover_url_of_def dict_get_dict_del\<close>)
qed

lemma author_name_of_without:
  "author_name_of (without f song) = (if f = Author then Inr [] else author_name_of song)"
  by (cases f)
     (simp_all add: author_name_of_def dict_get_dict_del dict_get_in_album_other py_join_def)

lemma author_avatar_of_without:
  "author_avatar_of B (without f song)
     = (if f = Author then Inr (JStr []) else author_avatar_of B song)"
  by (cases f)
     (simp_all add: author_avatar_of_def dict_get_dict_del dict_get_in_album_other)

lemma dict_get_without_name:
  "dict_get (without f song) (lit ''name'') d = dict_get song (lit ''name'') d"
  by (cases f) (simp_all add: dict_get_dict_del dict_get_in_album_other)

lemma dict_get_without_duration:
  "dict_get (without f song) (lit ''duration'') d = dict_get song (lit ''duration'') d"
  by (cases f) (simp_all add: dict_get_dict_del dict_get_in_album_other)

lemma song_fields_without:
  assumes "song_fields B (JDict song) = Inr info"
  shows "song_fields B (JDict (without f song)) =
     Inr \<lparr>title = title info,
          sub_title = (if f = Alias then JStr [] else sub_title info),
          album_name = (if f = Album \<or> f = AlbumName then JStr [] else album_name info),
          cover_url = (if f = Album \<or> f = CoverUrl then JStr [] else cover_url info),
          duration_ms = duration_ms info,
          author_name = (if f = Author then [] else author_name info),
          author_avatar = (if f = Author then JStr [] else author_avatar info)\<rparr>"
proof -
  from assms have s: "sub_title_of B song = Inr (sub_title info)"
    and a: "album_name_of song = Inr (album_name info)"
    and c: "cover_url_of B song = Inr (cover_url info)"
    and n: "author_name_of song = Inr (author_name info)"
    and v: "author_avatar_of B song = Inr (author_avatar info)"
    and t: "title info = dict_get song (lit ''name'') (JStr [])"
    and d: "duration_ms info = dict_get song (lit ''duration'') (JInt 0)"
    by (auto simp add: song_fields_eq_Inr)
  show ?thesis
    unfolding song_fields_dict sub_title_of_without album_name_of_without [OF a]
      cover_url_of_without [OF c] author_name_of_without author_avatar_of_without
      dict_get_without_name dict_get_without_duration
    using s n v t d by simp
qed

lemma assemble_without:
  assumes "assemble B sid info u = Inr r"
    and "title info = dict_get song (lit ''name'') (JStr [])"
  shows "assemble B sid
           \<lparr>title = title info,
            sub_title = (if f = Alias then JStr [] else sub_title info),
            album_name = (if f = Album \<or> f = AlbumName then JStr [] else album_name info),
            cover_url = (if f = Album \<or> f = CoverUrl then JStr [] else cover_url info),
            duration_ms = duration_ms info,
            author_name = (if f = Author then [] else author_name info),
            author_avatar = (if f = Author then JStr [] else author_avatar info)\<rparr> u
         = Inr (omitting B song f r)"
proof -
  from assms(1) obtain secs suffix where
    secs: "py_floordiv B (duration_ms info) 1000 = Inr secs"
    and suffix: "if truthy B (sub_title info)
         then (\<exists>s. sub_title info = JStr s \<and> suffix = [0xFF08] @ s @ [0xFF09])
         else suffix = []"
    and r: "r = \<lparr>r_title = py_format B (title info) @ suffix,
              r_text = (if truthy B (album_name info)
                        then Some (album_prefix @ py_format B (album_name info)) else None),
              r_author = (if author_name info \<noteq> []
                          then Some \<lparr>au_name = author_name info, au_avatar = author_avatar info\<rparr>
                          else None),
              r_contents = (if truthy B (cover_url info) then [ImageContent (cover_url info)] else [])
                             @ [AudioContent u (Some secs)],
              r_timestamp = None,
              r_url = lit ''https://music.163.com/#/song?id='' @ sid\<rparr>"
    unfolding assemble_eq_Inr by blast
  show ?thesis
  proof (cases f)
    case Alias
    with secs r assms(2) show ?thesis by (simp add: assemble_eq_Inr)
  next
    case Album
    with secs suffix r show ?thesis by (auto simp add: assemble_eq_Inr split: if_splits)
  next
    case AlbumName
    with secs suffix r show ?thesis by (auto simp add: assemble_eq_Inr split: if_splits)
  next
    case CoverUrl
    with secs suffix r show ?thesis by (auto simp add: assemble_eq_Inr split: if_splits)
  next
    case Author
    with secs suffix r show ?thesis by (auto simp add: assemble_eq_Inr split: if_splits)
  qed
qed

lemma omitting_example:
  "omitting plain_builtins example_song Alias example_result
     = example_result\<lparr>r_title := lit ''Song''\<rparr>"
  by (simp add: example_song_def)

lemma dec_digits_not_Nil: "dec_digits n \<noteq> []"
  by (subst dec_digits.simps) simp

lemma dec_digits_inject: "dec_digits n = dec_digits m \<Longrightarrow> n = m"
proof (induction n arbitrary: m rule: dec_digits.induct)
  case (1 n)
  show ?case
  proof (cases "n < 10")
    case True
    then have n: "dec_digits n = [48 + n]" by (subst dec_digits.simps) simp
    show ?thesis
    proof (cases "m < 10")
      case True
      then have "dec_digits m = [48 + m]" by (subst dec_digits.simps) simp
      with n "1.prems" show ?thesis by simp
    next
      case False
      then have "dec_digits m = dec_digits (m div 10) @ [48 + m mod 10]"
        by (subst dec_digits.simps) simp
      with n "1.prems" dec_digits_not_Nil [of "m div 10"] show ?thesis by simp
    qed
  next
    case False
    then have n: "dec_digits n = dec_digits (n div 10) @ [48 + n mod 10]"
      by (subst dec_digits.simps) simp
    show ?thesis
    proof (cases "m < 10")
      case True
      then have "dec_digits m = [48 + m]" by (subst dec_digits.simps) simp
      with n "1.prems" dec_digits_not_Nil [of "n div 10"] show ?thesis by simp
    next
      case m: False
      then have "dec_digits m = dec_digits (m div 10) @ [48 + m mod 10]"
        by (subst dec_digits.simps) simp
      with n "1.prems" have "dec_digits (n div 10) = dec_digits (m div 10)"
        and md: "n mod 10 = m mod 10"
        by simp_all
      with "1.IH" [OF False] have "n div 10 = m div 10" by blast
      with md show ?thesis by (metis div_mult_mod_eq)
    qed
  qed
qed

lemma dec_digits_hd: "hd (dec_digits n) \<noteq> 45"
proof (induction n rule: dec_digits.induct)
  case (1 n)
  show ?case
  proof (cases "n < 10")
    case True
    then show ?thesis by (subst dec_digits.simps) simp
  next
    case False
    then have "dec_digits n = dec_digits (n div 10) @ [48 + n mod 10]"
      by (subst dec_digits.simps) simp
    with "1.IH" [OF False] dec_digits_not_Nil [of "n div 10"] show ?thesis by simp
  qed
qed

lemma py_str_int_inject: "py_str_int i = py_str_int j \<Longrightarrow> i = j"
proof -
  assume a: "py_str_int i = py_str_int j"
  have neg: "45 # dec_digits a \<noteq> dec_digits b" for a b
    using dec_digits_hd [of b] by (cases "dec_digits b") auto
  show "i = j"
  proof (cases "i < 0")
    case i: True
    show ?thesis
    proof (cases "j < 0")
      case True
      with i a have "nat (- i) = nat (- j)"
        by (auto simp add: py_str_int_def dest: dec_digits_inject)
      with i True show ?thesis by simp
    next
      case False
      with i a neg show ?thesis by (simp add: py_str_int_def)
    qed
  next
    case i: False
    show ?thesis
    proof (cases "j < 0")
      case True
      with i a neg [of "nat (- j)" "nat i"] show ?thesis by (simp add: py_str_int_def)
    next
      case False
      with i a have "nat i = nat j"
        by (auto simp add: py_str_int_def dest: dec_digits_inject)
      with i False show ?thesis by simp
    qed
  qed
qed

lemma http_error_inject:
  "detail_http_error s = detail_http_error s' \<Longrightarrow> s = s'"
  "play_http_error s = play_http_error s' \<Longrightarrow> s = s'"
  by (auto simp add: detail_http_error_def play_http_error_def dest: py_str_int_inject)

lemma unavailable_error_int_inject:
  "unavailable_error B (JInt n) = unavailable_error B (JInt n') \<Longrightarrow> n = n'"
  by (auto simp add: unavailable_error_def dest: py_str_int_inject)

lemma album_of_eq: "dict_get song (lit ''album'') (JDict []) = JDict al \<Longrightarrow> album_of song = al"
  by (simp add: album_of_def)

lemma sub_title_of_blank:
  "empty_for B f v \<Longrightarrow>
   sub_title_of B (blank f v song) = (if f = Alias then Inr (JStr []) else sub_title_of B song)"
  by (cases f) (simp_all add: sub_title_of_def)

lemma album_name_of_blank:
  assumes "album_name_of song = Inr an" and "empty_for B f v"
  shows "album_name_of (blank f v song)
           = Inr (if f = Album then JStr [] else if f = AlbumName then v else an)"
proof -
  from assms(1) obtain al where al: "dict_get song (lit ''album'') (JDict []) = JDict al"
    and an: "an = dict_get al (lit ''name'') (JStr [])"
    by (auto simp add: album_name_of_eq_Inr)
  note ao = album_of_eq [OF al]
  show ?thesis
    using al an assms(2) by (cases f) (simp_all add: album_name_of_def ao)
qed

lemma cover_url_of_blank:
  assumes "cover_url_of B song = Inr cover" and "empty_for B f v"
  shows "cover_url_of B (blank f v song)
           = Inr (if f = Album then JStr [] else if f = CoverUrl then v else cover)"
proof -
  from assms(1) obtain al where al: "dict_get song (lit ''album'') (JDict []) = JDict al"
    by (auto dest: cover_url_of_Inr_album)
  note ao = album_of_eq [OF al]
  show ?thesis
  proof (cases f)
    case AlbumName
    with al assms(1) show ?thesis by (simp add: cover_url_of_def ao)
  next
    case CoverUrl
    with assms(2) show ?thesis by (simp add: cover_url_of_def ao)
  qed (use al assms in \<open>simp_all add: cover_url_of_def\<close>)
qed

lemma author_name_of_blank:
  "empty_for B f v \<Longrightarrow>
   author_name_of (blank f v song) = (if f = Author then Inr [] else author_name_of song)"
  by (cases f) (simp_all add: author_name_of_def py_join_def)

lemma author_avatar_of_blank:
  "empty_for B f v \<Longrightarrow>
   author_avatar_of B (blank f v song)
     = (if f = Author then Inr (JStr []) else author_avatar_of B song)"
  by (cases f) (simp_all add: author_avatar_of_def)

lemma dict_get_blank_name:
  "dict_get (blank f v song) (lit ''name'') d = dict_get song (lit ''name'') d"
  by (cases f) simp_all

lemma dict_get_blank_duration:
  "dict_get (blank f v song) (lit ''duration'') d = dict_get song (lit ''duration'') d"
  by (cases f) simp_all

lemma song_fields_blank:
  assumes "song_fields B (JDict song) = Inr info"
    and "empty_for B f v"
  shows "song_fields B (JDict (blank f v song)) =
     Inr \<lparr>title = title info,
          sub_title = (if f = Alias then JStr [] else sub_title info),
          album_name = (if f = Album then JStr [] else if f = AlbumName then v else album_name info),
          cover_url = (if f = Album then JStr [] else if f = CoverUrl then v else cover_url info),
          duration_ms = duration_ms info,
          author_name = (if f = Author then [] else author_name info),
          author_avatar = (if f = Author then JStr [] else author_avatar info)\<rparr>"
proof -
  from assms(1) have s: "sub_title_of B song = Inr (sub_title info)"
    and a: "album_name_of song = Inr (album_name info)"
    and c: "cover_url_of B song = Inr (cover_url info)"
    and n: "author_name_of song = Inr (author_name info)"
    and av: "author_avatar_of B song = Inr (author_avatar info)"
    and t: "title info = dict_get song (lit ''name'') (JStr [])"
    and d: "duration_ms info = dict_get song (lit ''duration'') (JInt 0)"
    by (auto simp add: song_fields_eq_Inr)
  show ?thesis
    unfolding song_fields_dict sub_title_of_blank [OF assms(2)]
      album_name_of_blank [OF a assms(2)] cover_url_of_blank [OF c assms(2)]
      author_name_of_blank [OF assms(2)] author_avatar_of_blank [OF assms(2)]
      dict_get_blank_name dict_get_blank_duration
    using s n av t d by simp
qed

lemma assemble_blank:
  assumes "assemble B sid info u = Inr r"
    and "title info = dict_get song (lit ''name'') (JStr [])"
    and "empty_for B f v"
  shows "assemble B sid
           \<lparr>title = title info,
            sub_title = (if f = Alias then JStr [] else sub_title info),
            album_name = (if f = Album then JStr [] else if f = AlbumName then v else album_name info),
            cover_url = (if f = Album then JStr [] else if f = CoverUrl then v else cover_url info),
            duration_ms = duration_ms info,
            author_name = (if f = Author then [] else author_name info),
            author_avatar = (if f = Author then JStr [] else author_avatar info)\<rparr> u
         = Inr (omitting B song f r)"
proof -
  from assms(1) obtain secs suffix where
    secs: "py_floordiv B (duration_ms info) 1000 = Inr secs"
    and suffix: "if truthy B (sub_title info)
         then (\<exists>s. sub_title info = JStr s \<and> suffix = [0xFF08] @ s @ [0xFF09])
         else suffix = []"
    and r: "r = \<lparr>r_title = py_format B (title info) @ suffix,
              r_text = (if truthy B (album_name info)
                        then Some (album_prefix @ py_format B (album_name info)) else None),
              r_author = (if author_name info \<noteq> []
                          then Some \<lparr>au_name = author_name info, au_avatar = author_avatar info\<rparr>
                          else None),
              r_contents = (if truthy B (cover_url info) then [ImageContent (cover_url info)] else [])
                             @ [AudioContent u (Some secs)],
              r_timestamp = None,
              r_url = lit ''https://music.163.com/#/song?id='' @ sid\<rparr>"
    unfolding assemble_eq_Inr by blast
  show ?thesis
  proof (cases f)
    case Alias
    with secs r assms(2) show ?thesis by (simp add: assemble_eq_Inr)
  next
    case Album
    with secs suffix r show ?thesis by (auto simp add: assemble_eq_Inr split: if_splits)
  next
    case AlbumName
    with secs suffix r assms(3) show ?thesis by (auto simp add: assemble_eq_Inr split: if_splits)
  next
    case CoverUrl
    with secs suffix r assms(3) show ?thesis by (auto simp add: assemble_eq_Inr split: if_splits)
  next
    case Author
    with secs suffix r show ?thesis by (auto simp add: assemble_eq_Inr split: if_splits)
  qed
qed

lemma null_album_run:
  "parse_song plain_builtins null_album_net example_match
     = (Inl AttributeError, [detail_url (lit ''42'')])"
proof -
  have d: "detail_serves null_album_net (group_song_id example_match) null_album_song"
    by (simp add: null_album_net_def)
  have "song_fields plain_builtins (JDict null_album_song) = Inl AttributeError"
    by (simp add: song_fields_def null_album_song_def)
  then show ?thesis by (simp add: parse_song_served [OF d])
qed

lemma null_artists_run:
  "parse_song plain_builtins null_artists_net example_match
     = (Inl TypeError, [detail_url (lit ''42'')])"
proof -
  have d: "detail_serves null_artists_net (group_song_id example_match) null_artists_song"
    by (simp add: null_artists_net_def)
  have "song_fields plain_builtins (JDict null_artists_song) = Inl TypeError"
    by (simp add: song_fields_def null_artists_song_def)
  then show ?thesis by (simp add: parse_song_served [OF d])
qed

lemma omitting_example_author:
  "omitting plain_builtins example_song Author example_result
     = example_result\<lparr>r_author := None\<rparr>"
  by simp

lemma song_fields_all_missing:
  assumes "\<not> truthy B (dict_get song (lit ''alias'') JNull)"
    and "dict_get song (lit ''album'') (JDict []) = JDict al"
    and "\<not> truthy B (dict_get al (lit ''name'') (JStr []))"
    and "\<not> truthy B (dict_get al (lit ''picUrl'') (JStr []))"
    and "dict_get song (lit ''artists'') (JList []) = JList []"
  shows "song_fields B (JDict song) =
     Inr \<lparr>title = dict_get song (lit ''name'') (JStr []), sub_title = JStr [],
          album_name = dict_get al (lit ''name'') (JStr []),
          cover_url = dict_get al (lit ''picUrl'') (JStr []),
          duration_ms = dict_get song (lit ''duration'') (JInt 0),
          author_name = [], author_avatar = JStr []\<rparr>"
  using assms
  by (simp add: song_fields_dict sub_title_of_def album_name_of_def cover_url_of_def
      author_name_of_def author_avatar_of_def py_join_def)

lemma parse_song_all_missing:
  assumes "detail_serves net (group_song_id m) song"
    and "\<not> truthy B (dict_get song (lit ''alias'') JNull)"
    and "dict_get song (lit ''album'') (JDict []) = JDict al"
    and "\<not> truthy B (dict_get al (lit ''name'') (JStr []))"
    and "\<not> truthy B (dict_get al (lit ''picUrl'') (JStr []))"
    and "dict_get song (lit ''artists'') (JList []) = JList []"
    and "py_floordiv B (dict_get song (lit ''duration'') (JInt 0)) 1000 = Inr secs"
    and "play_serves net (group_song_id m) entry"
    and "truthy B (dict_get entry (lit ''url'') JNull)"
  shows "parse_song B net m =
     (Inr \<lparr>r_title = py_format B (dict_get song (lit ''name'') (JStr [])),
           r_text = None, r_author = None,
           r_contents = [AudioContent (dict_get entry (lit ''url'') JNull) (Some secs)],
           r_timestamp = None,
           r_url = lit ''https://music.163.com/#/song?id='' @ group_song_id m\<rparr>,
      [detail_url (group_song_id m), play_url (group_song_id m)])"
proof -
  note f = song_fields_all_missing [OF assms(2-6)]
  have "assemble B (group_song_id m)
          \<lparr>title = dict_get song (lit ''name'') (JStr []), sub_title = JStr [],
           album_name = dict_get al (lit ''name'') (JStr []),
           cover_url = dict_get al (lit ''picUrl'') (JStr []),
           duration_ms = dict_get song (lit ''duration'') (JInt 0),
           author_name = [], author_avatar = JStr []\<rparr>
          (dict_get entry (lit ''url'') JNull)
        = Inr \<lparr>r_title = py_format B (dict_get song (lit ''name'') (JStr [])),
           r_text = None, r_author = None,
           r_contents = [AudioContent (dict_get entry (lit ''url'') JNull) (Some secs)],
           r_timestamp = None,
           r_url = lit ''https://music.163.com/#/song?id='' @ group_song_id m\<rparr>"
    using assms(4,5,7) by (simp add: assemble_eq_Inr)
  with assms(1,8,9) f show ?thesis
    unfolding parse_song_eq_Inr by blast
qed

section \<open>Properties\<close>

text \<open>
  C10: on any match, the direct \<open>.mp3\<close> handler and the private outer-link handler
  request no URL (the list of requested URLs is empty) and return a result whose contents
  are exactly one audio item holding the matched URL unchanged, with a fixed title, a
  fixed text and no author.
\<close>

theorem direct_links_wrap_url:
  "parse_direct_mp3 net m =
     (Inr \<lparr>r_title = direct_title, r_text = Some direct_text, r_author = None,
           r_contents = [AudioContent (JStr (group0 m)) None], r_timestamp = None,
           r_url = group0 m\<rparr>, [])
   \<and> parse_private_outer net m =
     (Inr \<lparr>r_title = private_title, r_text = Some direct_text, r_author = None,
           r_contents = [AudioContent (JStr (group0 m)) None], r_timestamp = None,
           r_url = group0 m\<rparr>, [])"
  by (simp add: parse_direct_mp3_def parse_private_outer_def result_def create_audio_content_def Let_def)

text \<open>
  C2: when the detail request is answered with a status below 400 and a JSON object whose
  \<open>songs\<close> is missing or the empty list, the song handler raises the not-found
  \<open>ParseException\<close> and has requested the detail URL only, not the playback URL.
\<close>

theorem empty_song_list_not_found:
  assumes "net (detail_url (group_song_id m)) = Reply status (Some (JDict d))"
    and "status < 400"
    and "map_of d (lit ''songs'') = None \<or> map_of d (lit ''songs'') = Some (JList [])"
  shows "parse_song B net m
           = (Inl (ParseException not_found_error), [detail_url (group_song_id m)])
         \<and> play_url (group_song_id m) \<notin> set (snd (parse_song B net m))"
proof -
  have "get_json net (detail_url (group_song_id m)) detail_http_error = Inr (JDict d)"
    using assms(1,2) by (simp add: get_json_eq_Inr)
  moreover have "first_song B (JDict d) = Inl (ParseException not_found_error)"
    using assms(3) by (auto simp add: first_song_def dict_get_def)
  ultimately show ?thesis
    by (simp add: parse_song_def Let_def)
qed

theorem empty_song_list_not_found_witness:
  "serve (lit ''42'') (Reply 200 (Some (JDict [(lit ''songs'', JList [])]))) NoReply
       (detail_url (group_song_id example_match))
     = Reply 200 (Some (JDict [(lit ''songs'', JList [])]))
   \<and> (200::int) < 400
   \<and> map_of [(lit ''songs'', JList [])] (lit ''songs'') = Some (JList [])
   \<and> parse_song plain_builtins
        (serve (lit ''42'') (Reply 200 (Some (JDict [(lit ''songs'', JList [])]))) NoReply)
        example_match
      = (Inl (ParseException not_found_error), [detail_url (lit ''42'')])"
proof -
  have n: "serve (lit ''42'') (Reply 200 (Some (JDict [(lit ''songs'', JList [])]))) NoReply
       (detail_url (group_song_id example_match))
     = Reply 200 (Some (JDict [(lit ''songs'', JList [])]))"
    by (simp add: example_match_def)
  have s: "(200::int) < 400" by simp
  have e: "map_of [(lit ''songs'', JList [])] (lit ''songs'') = None
         \<or> map_of [(lit ''songs'', JList [])] (lit ''songs'') = Some (JList [])"
    by simp
  show ?thesis
    using empty_song_list_not_found
      [where net = "serve (lit ''42'') (Reply 200 (Some (JDict [(lit ''songs'', JList [])]))) NoReply"
         and m = example_match and status = 200 and d = "[(lit ''songs'', JList [])]"
         and B = plain_builtins, OF n s e] n
    by (simp add: example_match_def)
qed

text \<open>
  C3: when the playback response is reached and its first entry has no audio URL and a
  code equal to 404, the song handler raises the restricted \<open>ParseException\<close>, whose
  message differs from every message of the generic unavailable condition.
\<close>

theorem restricted_on_code_404:
  assumes "detail_serves net (group_song_id m) song"
    and "song_fields B (JDict song) = Inr info"
    and "play_serves net (group_song_id m) entry"
    and "\<not> truthy B (dict_get entry (lit ''url'') JNull)"
    and "py_eq_int B (dict_get entry (lit ''code'') (JInt (- 1))) 404"
  shows "parse_song B net m
           = (Inl (ParseException restricted_error),
              [detail_url (group_song_id m), play_url (group_song_id m)])
         \<and> (\<forall>code. restricted_error \<noteq> unavailable_error B code)"
proof -
  from assms(3) obtain status d rest where
    n: "net (play_url (group_song_id m)) = Reply status (Some (JDict d))" and s: "status < 400"
    and md: "map_of d (lit ''data'') = Some (JList (JDict entry # rest))"
    by (auto simp add: play_serves_iff)
  have g: "get_json net (play_url (group_song_id m)) play_http_error = Inr (JDict d)"
    using n s by (simp add: get_json_eq_Inr)
  have p: "playable_url B (JDict d) = Inl (ParseException restricted_error)"
    using md assms(4,5) by (simp add: playable_url_first_entry Let_def)
  have "\<forall>code. restricted_error \<noteq> unavailable_error B code"
    by (simp add: restricted_error_def unavailable_error_def lit_def)
  then show ?thesis
    by (simp add: parse_song_served [OF assms(1)] assms(2) g p)
qed

theorem restricted_on_code_404_witness:
  "detail_serves (serve (lit ''42'') (detail_of example_song)
        (play_of [(lit ''url'', JNull), (lit ''code'', JInt 404)])) (group_song_id example_match) example_song
   \<and> play_serves (serve (lit ''42'') (detail_of example_song)
        (play_of [(lit ''url'', JNull), (lit ''code'', JInt 404)])) (group_song_id example_match)
        [(lit ''url'', JNull), (lit ''code'', JInt 404)]
   \<and> \<not> truthy plain_builtins (dict_get [(lit ''url'', JNull), (lit ''code'', JInt 404)] (lit ''url'') JNull)
   \<and> py_eq_int plain_builtins
        (dict_get [(lit ''url'', JNull), (lit ''code'', JInt 404)] (lit ''code'') (JInt (- 1))) 404
   \<and> parse_song plain_builtins
        (serve (lit ''42'') (detail_of example_song)
           (play_of [(lit ''url'', JNull), (lit ''code'', JInt 404)])) example_match
      = (Inl (ParseException restricted_error), [detail_url (lit ''42''), play_url (lit ''42'')])"
proof -
  let ?entry = "[(lit ''url'', JNull), (lit ''code'', JInt 404)] :: (pystr \<times> unit json) list"
  let ?net = "serve (lit ''42'') (detail_of example_song) (play_of ?entry)"
  have d: "detail_serves ?net (group_song_id example_match) example_song" by simp
  have p: "play_serves ?net (group_song_id example_match) ?entry" by simp
  have u: "\<not> truthy plain_builtins (dict_get ?entry (lit ''url'') JNull)" by simp
  have c: "py_eq_int plain_builtins (dict_get ?entry (lit ''code'') (JInt (- 1))) 404" by simp
  show ?thesis
    using restricted_on_code_404 [OF d example_fields p u c] d p u c by simp
qed

text \<open>
  C4: when the playback response is reached and its first entry has no audio URL and a
  code other than 404, the song handler raises the generic unavailable
  \<open>ParseException\<close>, whose message is the fixed text around that code as formatted (a
  missing code reads as -1); for integer codes, different codes give different messages.
\<close>

theorem unavailable_on_other_code:
  assumes "detail_serves net (group_song_id m) song"
    and "song_fields B (JDict song) = Inr info"
    and "play_serves net (group_song_id m) entry"
    and "\<not> truthy B (dict_get entry (lit ''url'') JNull)"
    and "\<not> py_eq_int B (dict_get entry (lit ''code'') (JInt (- 1))) 404"
  shows "parse_song B net m
           = (Inl (ParseException
                (lit ''[NCM] '' @ [0x65E0, 0x6CD5, 0x83B7, 0x53D6, 0x64AD, 0x653E, 0x5730, 0x5740]
                   @ lit '' (code='' @ py_format B (dict_get entry (lit ''code'') (JInt (- 1)))
                   @ lit '')'')),
              [detail_url (group_song_id m), play_url (group_song_id m)])
         \<and> (\<forall>n n'. unavailable_error B (JInt n) = unavailable_error B (JInt n') \<longrightarrow> n = n')"
proof -
  from assms(3) obtain status d rest where
    n: "net (play_url (group_song_id m)) = Reply status (Some (JDict d))" and s: "status < 400"
    and md: "map_of d (lit ''data'') = Some (JList (JDict entry # rest))"
    by (auto simp add: play_serves_iff)
  have g: "get_json net (play_url (group_song_id m)) play_http_error = Inr (JDict d)"
    using n s by (simp add: get_json_eq_Inr)
  have p: "playable_url B (JDict d)
      = Inl (ParseException (unavailable_error B (dict_get entry (lit ''code'') (JInt (- 1)))))"
    using md assms(4,5) by (simp add: playable_url_first_entry Let_def)
  have "parse_song B net m
           = (Inl (ParseException
                (lit ''[NCM] '' @ [0x65E0, 0x6CD5, 0x83B7, 0x53D6, 0x64AD, 0x653E, 0x5730, 0x5740]
                   @ lit '' (code='' @ py_format B (dict_get entry (lit ''code'') (JInt (- 1)))
                   @ lit '')'')),
              [detail_url (group_song_id m), play_url (group_song_id m)])"
    by (simp add: parse_song_served [OF assms(1)] assms(2) g p unavailable_error_def)
  moreover have "\<forall>n n'. unavailable_error B (JInt n) = unavailable_error B (JInt n') \<longrightarrow> n = n'"
    using unavailable_error_int_inject by blast
  ultimately show ?thesis by blast
qed

theorem unavailable_on_other_code_witness:
  "detail_serves (serve (lit ''42'') (detail_of example_song)
        (play_of [(lit ''code'', JInt 403)])) (group_song_id example_match) example_song
   \<and> play_serves (serve (lit ''42'') (detail_of example_song)
        (play_of [(lit ''code'', JInt 403)])) (group_song_id example_match) [(lit ''code'', JInt 403)]
   \<and> \<not> truthy plain_builtins (dict_get [(lit ''code'', JInt 403)] (lit ''url'') JNull)
   \<and> \<not> py_eq_int plain_builtins (dict_get [(lit ''code'', JInt 403)] (lit ''code'') (JInt (- 1))) 404
   \<and> parse_song plain_builtins
        (serve (lit ''42'') (detail_of example_song) (play_of [(lit ''code'', JInt 403)])) example_match
      = (Inl (ParseException
           (lit ''[NCM] '' @ [0x65E0, 0x6CD5, 0x83B7, 0x53D6, 0x64AD, 0x653E, 0x5730, 0x5740]
              @ lit '' (code=403)'')),
         [detail_url (lit ''42''), play_url (lit ''42'')])"
proof -
  let ?entry = "[(lit ''code'', JInt 403)] :: (pystr \<times> unit json) list"
  let ?net = "serve (lit ''42'') (detail_of example_song) (play_of ?entry)"
  have d: "detail_serves ?net (group_song_id example_match) example_song" by simp
  have p: "play_serves ?net (group_song_id example_match) ?entry" by simp
  have u: "\<not> truthy plain_builtins (dict_get ?entry (lit ''url'') JNull)" by simp
  have c: "\<not> py_eq_int plain_builtins (dict_get ?entry (lit ''code'') (JInt (- 1))) 404" by simp
  have f: "lit '' (code='' @ py_str_int 403 @ lit '')'' = lit '' (code=403)''"
    by (simp add: lit_def py_str_int_def dec_digits.simps)
  show ?thesis
    using unavailable_on_other_code [OF d example_fields p u c, THEN conjunct1] d p u c f by simp
qed

text \<open>
  C5: a detail reply with status 400 or more makes the song handler raise \<open>ClientError\<close>
  with the detail message ending in that status; once the song fields are read, a playback
  reply with status 400 or more makes it raise \<open>ClientError\<close> with the playback message
  ending in that status; the handler raises \<open>ClientError\<close> in no other case, so never
  when both statuses are below 400; different statuses give different messages.
\<close>

theorem http_status_errors:
  "(net (detail_url (group_song_id m)) = Reply status body \<and> 400 \<le> status \<longrightarrow>
      parse_song B net m
        = (Inl (ClientError (detail_http_error status)), [detail_url (group_song_id m)]))
   \<and> (detail_serves net (group_song_id m) song \<and> song_fields B (JDict song) = Inr info
        \<and> net (play_url (group_song_id m)) = Reply status body \<and> 400 \<le> status \<longrightarrow>
      parse_song B net m
        = (Inl (ClientError (play_http_error status)),
           [detail_url (group_song_id m), play_url (group_song_id m)]))
   \<and> (fst (parse_song B net m) = Inl (ClientError msg) \<longrightarrow>
        (\<exists>st bd. 400 \<le> st \<and>
           (net (detail_url (group_song_id m)) = Reply st bd \<and> msg = detail_http_error st
            \<or> net (play_url (group_song_id m)) = Reply st bd \<and> msg = play_http_error st)))
   \<and> (net (detail_url (group_song_id m)) = Reply status1 body1 \<and> status1 < 400
        \<and> net (play_url (group_song_id m)) = Reply status2 body2 \<and> status2 < 400 \<longrightarrow>
        fst (parse_song B net m) \<noteq> Inl (ClientError msg))
   \<and> (detail_http_error status = detail_http_error status' \<longrightarrow> status = status')
   \<and> (play_http_error status = play_http_error status' \<longrightarrow> status = status')"
proof -
  let ?du = "detail_url (group_song_id m)"
  let ?pu = "play_url (group_song_id m)"
  let ?stage = "ebind (get_json net ?du detail_http_error)
           (\<lambda>detail_json. ebind (first_song B detail_json) (song_fields B))"
  have one: "parse_song B net m = (Inl (ClientError (detail_http_error status)), [?du])"
    if "net ?du = Reply status body" "400 \<le> status"
  proof -
    have "get_json net ?du detail_http_error = Inl (ClientError (detail_http_error status))"
      using that by (simp add: get_json_def)
    then show ?thesis by (simp add: parse_song_def Let_def)
  qed
  have two: "parse_song B net m = (Inl (ClientError (play_http_error status)), [?du, ?pu])"
    if "detail_serves net (group_song_id m) song" "song_fields B (JDict song) = Inr info"
      "net ?pu = Reply status body" "400 \<le> status"
  proof -
    have "get_json net ?pu play_http_error = Inl (ClientError (play_http_error status))"
      using that(3,4) by (simp add: get_json_def)
    then show ?thesis by (simp add: parse_song_served [OF that(1)] that(2))
  qed
  have three: "\<exists>st bd. 400 \<le> st \<and>
           (net ?du = Reply st bd \<and> msg = detail_http_error st
            \<or> net ?pu = Reply st bd \<and> msg = play_http_error st)"
    if c: "fst (parse_song B net m) = Inl (ClientError msg)" for msg
  proof (cases ?stage)
    case (Inl e)
    with c have "?stage = Inl (ClientError msg)"
      by (simp add: parse_song_def Let_def)
    then have "get_json net ?du detail_http_error = Inl (ClientError msg)"
      by (simp add: ebind_eq_Inl)
    then show ?thesis by (auto simp add: get_json_eq_ClientError)
  next
    case (Inr s)
    with c have "ebind (get_json net ?pu play_http_error) (\<lambda>play_json.
             ebind (playable_url B play_json) (assemble B (group_song_id m) s)) = Inl (ClientError msg)"
      by (simp add: parse_song_def Let_def)
    then have "get_json net ?pu play_http_error = Inl (ClientError msg)"
      by (simp add: ebind_eq_Inl)
    then show ?thesis by (auto simp add: get_json_eq_ClientError)
  qed
  have four: "fst (parse_song B net m) \<noteq> Inl (ClientError msg)"
    if "net ?du = Reply status1 body1" "status1 < 400" "net ?pu = Reply status2 body2" "status2 < 400"
  proof
    assume "fst (parse_song B net m) = Inl (ClientError msg)"
    then obtain st bd where "400 \<le> st"
      and "net ?du = Reply st bd \<or> net ?pu = Reply st bd"
      using three by blast
    with that show False by auto
  qed
  show ?thesis
  proof (intro conjI impI)
    assume "net ?du = Reply status body \<and> 400 \<le> status"
    then show "parse_song B net m = (Inl (ClientError (detail_http_error status)), [?du])"
      using one by blast
  next
    assume "detail_serves net (group_song_id m) song \<and> song_fields B (JDict song) = Inr info
        \<and> net ?pu = Reply status body \<and> 400 \<le> status"
    then show "parse_song B net m = (Inl (ClientError (play_http_error status)), [?du, ?pu])"
      using two by blast
  next
    assume "fst (parse_song B net m) = Inl (ClientError msg)"
    then show "\<exists>st bd. 400 \<le> st \<and>
           (net ?du = Reply st bd \<and> msg = detail_http_error st
            \<or> net ?pu = Reply st bd \<and> msg = play_http_error st)"
      by (rule three)
  next
    assume "net ?du = Reply status1 body1 \<and> status1 < 400
        \<and> net ?pu = Reply status2 body2 \<and> status2 < 400"
    then show "fst (parse_song B net m) \<noteq> Inl (ClientError msg)"
      using four by blast
  next
    assume "detail_http_error status = detail_http_error status'"
    then show "status = status'" by (rule http_error_inject)
  next
    assume "play_http_error status = play_http_error status'"
    then show "status = status'" by (rule http_error_inject)
  qed
qed

theorem http_status_errors_witness:
  "parse_song plain_builtins (serve (lit ''42'') (Reply 404 None) NoReply) example_match
     = (Inl (ClientError
          (lit ''[NCM] '' @ [0x83B7, 0x53D6, 0x6B4C, 0x66F2, 0x4FE1, 0x606F, 0x5931, 0x8D25]
             @ lit '' HTTP 404'')),
        [detail_url (lit ''42'')])
   \<and> parse_song plain_builtins (serve (lit ''42'') (detail_of example_song) (Reply 500 None))
        example_match
     = (Inl (ClientError
          (lit ''[NCM] '' @ [0x83B7, 0x53D6, 0x64AD, 0x653E, 0x5730, 0x5740, 0x5931, 0x8D25]
             @ lit '' HTTP 500'')),
        [detail_url (lit ''42''), play_url (lit ''42'')])
   \<and> fst (parse_song plain_builtins example_net example_match) \<noteq> Inl (ClientError [])"
proof -
  let ?n1 = "serve (lit ''42'') (Reply 404 None) NoReply :: unit network"
  let ?n2 = "serve (lit ''42'') (detail_of example_song) (Reply 500 None)"
  have "?n1 (detail_url (group_song_id example_match)) = Reply 404 None \<and> (400::int) \<le> 404 \<longrightarrow>
      parse_song plain_builtins ?n1 example_match
        = (Inl (ClientError (detail_http_error 404)), [detail_url (group_song_id example_match)])"
    using http_status_errors
      [where net = ?n1 and m = example_match and status = 404 and body = None
         and B = plain_builtins]
    by (rule conjunct1)
  then have a: "parse_song plain_builtins ?n1 example_match
        = (Inl (ClientError (detail_http_error 404)), [detail_url (lit ''42'')])"
    by simp
  have "detail_serves ?n2 (group_song_id example_match) example_song
        \<and> song_fields plain_builtins (JDict example_song) = Inr
            \<lparr>title = JStr (lit ''Song''), sub_title = JStr (lit ''Alt''), album_name = JStr (lit ''LP''),
             cover_url = JStr (lit ''http://example/cover.jpg'' @ lit ''?param=640y640''),
             duration_ms = JInt 125499, author_name = lit ''Ann'' @ lit '' / '' @ lit ''Bob'',
             author_avatar = JStr (lit ''http://example/ann.jpg'')\<rparr>
        \<and> ?n2 (play_url (group_song_id example_match)) = Reply 500 None \<and> (400::int) \<le> 500 \<longrightarrow>
      parse_song plain_builtins ?n2 example_match
        = (Inl (ClientError (play_http_error 500)),
           [detail_url (group_song_id example_match), play_url (group_song_id example_match)])"
    using http_status_errors
      [where net = ?n2 and m = example_match and status = 500 and body = None
         and B = plain_builtins and song = example_song]
    by (rule conjunct2 [THEN conjunct1])
  then have b: "parse_song plain_builtins ?n2 example_match
        = (Inl (ClientError (play_http_error 500)), [detail_url (lit ''42''), play_url (lit ''42'')])"
    by (simp add: example_fields)
  have "example_net (detail_url (group_song_id example_match)) = detail_of example_song \<and> (200::int) < 400
        \<and> example_net (play_url (group_song_id example_match)) = play_of example_entry \<and> (200::int) < 400 \<longrightarrow>
        fst (parse_song plain_builtins example_net example_match) \<noteq> Inl (ClientError [])"
    using http_status_errors
      [where net = example_net and m = example_match and B = plain_builtins
         and ?status1.0 = 200 and ?status2.0 = 200 and msg = "[]"
         and ?body1.0 = "Some (JDict [(lit ''songs'', JList [JDict example_song])])"
         and ?body2.0 = "Some (JDict [(lit ''data'', JList [JDict example_entry])])"]
    unfolding detail_of_def play_of_def
    by (rule conjunct2 [THEN conjunct2, THEN conjunct2, THEN conjunct1])
  then have c: "fst (parse_song plain_builtins example_net example_match) \<noteq> Inl (ClientError [])"
    by (simp add: example_net_def)
  show ?thesis
    using a b c by (simp add: detail_http_error_def play_http_error_def)
qed

text \<open>
  C6: when the first song has the integer duration \<open>d\<close> (milliseconds) and the song
  handler returns a result, the audio item of the result has the duration \<open>d div 1000\<close>
  seconds, which is the floor of \<open>d / 1000\<close>: \<open>1000 * (d div 1000) \<le> d < 1000 * (d div 1000) + 1000\<close>.
  The example after it has 125499 ms and 125 seconds.
\<close>

theorem duration_floor_seconds:
  assumes "detail_serves net (group_song_id m) song"
    and "map_of song (lit ''duration'') = Some (JInt d)"
    and "parse_song B net m = (Inr r, tr)"
  shows "(\<exists>u. filter is_audio (r_contents r) = [AudioContent u (Some (JInt (d div 1000)))])
         \<and> 1000 * (d div 1000) \<le> d \<and> d < 1000 * (d div 1000) + 1000"
proof -
  from assms(1,3) obtain info entry where
    f: "song_fields B (JDict song) = Inr info"
    and a: "assemble B (group_song_id m) info (dict_get entry (lit ''url'') JNull) = Inr r"
    by (rule parse_song_success)
  from f assms(2) have "duration_ms info = JInt d"
    by (auto simp add: song_fields_eq_Inr dict_get_def)
  with a have "filter is_audio (r_contents r)
      = [AudioContent (dict_get entry (lit ''url'') JNull) (Some (JInt (d div 1000)))]"
    by (auto simp add: assemble_eq_Inr)
  moreover have "1000 * (d div 1000) \<le> d \<and> d < 1000 * (d div 1000) + 1000"
    by presburger
  ultimately show ?thesis by blast
qed

theorem duration_floor_seconds_witness:
  "detail_serves example_net (group_song_id example_match) example_song
   \<and> map_of example_song (lit ''duration'') = Some (JInt 125499)
   \<and> parse_song plain_builtins example_net example_match
        = (Inr example_result, [detail_url (lit ''42''), play_url (lit ''42'')])
   \<and> (\<exists>u. filter is_audio (r_contents example_result) = [AudioContent u (Some (JInt 125))])"
proof -
  have d: "detail_serves example_net (group_song_id example_match) example_song" by simp
  have k: "map_of example_song (lit ''duration'') = Some (JInt 125499)"
    by (simp add: example_song_def)
  show ?thesis
    using duration_floor_seconds [OF d k example_run] d k example_run by simp
qed

text \<open>
  C7: when the song handler returns a result and the album's \<open>picUrl\<close> is a non-empty
  str \<open>p\<close>, the contents are the image item of \<open>p\<close> followed by \<open>?param=640y640\<close>, then
  the audio item; when \<open>picUrl\<close> is missing or empty (falsy), the contents are the audio
  item alone.
\<close>

theorem cover_url_and_contents:
  assumes "detail_serves net (group_song_id m) song"
    and "dict_get song (lit ''album'') (JDict []) = JDict album"
    and "parse_song B net m = (Inr r, tr)"
  shows "(dict_get album (lit ''picUrl'') (JStr []) = JStr p \<and> p \<noteq> [] \<longrightarrow>
            (\<exists>u d. r_contents r
               = [ImageContent (JStr (p @ lit ''?param=640y640'')), AudioContent u d]))
         \<and> (\<not> truthy B (dict_get album (lit ''picUrl'') (JStr [])) \<longrightarrow>
            (\<exists>u d. r_contents r = [AudioContent u d]))"
proof -
  from assms(1,3) obtain info entry where
    f: "song_fields B (JDict song) = Inr info"
    and a: "assemble B (group_song_id m) info (dict_get entry (lit ''url'') JNull) = Inr r"
    by (rule parse_song_success)
  from f have c: "cover_url_of B song = Inr (cover_url info)"
    by (auto simp add: song_fields_eq_Inr)
  let ?pic = "dict_get album (lit ''picUrl'') (JStr [])"
  have one: "\<exists>u d. r_contents r
               = [ImageContent (JStr (p @ lit ''?param=640y640'')), AudioContent u d]"
    if "?pic = JStr p" "p \<noteq> []"
  proof -
    from c that have "cover_url info = JStr (p @ lit ''?param=640y640'')"
      by (simp add: cover_url_of_eq_Inr [OF assms(2)])
    with a show ?thesis by (auto simp add: assemble_eq_Inr)
  qed
  have two: "\<exists>u d. r_contents r = [AudioContent u d]" if "\<not> truthy B ?pic"
  proof -
    from c that have "cover_url info = ?pic"
      by (simp add: cover_url_of_eq_Inr [OF assms(2)])
    with a that show ?thesis by (auto simp add: assemble_eq_Inr)
  qed
  from one two show ?thesis by blast
qed

theorem cover_url_and_contents_witness:
  "detail_serves example_net (group_song_id example_match) example_song
   \<and> parse_song plain_builtins example_net example_match
        = (Inr example_result, [detail_url (lit ''42''), play_url (lit ''42'')])
   \<and> (\<exists>u d. r_contents example_result
         = [ImageContent (JStr (lit ''http://example/cover.jpg?param=640y640'')), AudioContent u d])
   \<and> detail_serves bare_net (group_song_id example_match) bare_song
   \<and> parse_song plain_builtins bare_net example_match
        = (Inr bare_result, [detail_url (lit ''42''), play_url (lit ''42'')])
   \<and> (\<exists>u d. r_contents bare_result = [AudioContent u d])"
proof -
  have d: "detail_serves example_net (group_song_id example_match) example_song" by simp
  have al: "dict_get example_song (lit ''album'') (JDict [])
      = JDict [(lit ''name'', JStr (lit ''LP'')),
               (lit ''picUrl'', JStr (lit ''http://example/cover.jpg''))]"
    by (simp add: example_song_def)
  have one: "\<exists>u d. r_contents example_result
         = [ImageContent (JStr (lit ''http://example/cover.jpg?param=640y640'')), AudioContent u d]"
    using cover_url_and_contents [OF d al example_run, where p = "lit ''http://example/cover.jpg''"]
    by (simp add: lit_append)
  have d': "detail_serves bare_net (group_song_id example_match) bare_song" by simp
  have al': "dict_get bare_song (lit ''album'') (JDict []) = JDict []"
    by (simp add: bare_song_def)
  have two: "\<exists>u d. r_contents bare_result = [AudioContent u d]"
    using cover_url_and_contents [OF d' al' bare_run] by simp
  show ?thesis
    using d d' one two example_run bare_run by blast
qed

text \<open>
  C8, as amended: when the song handler returns a result for a song whose name is the
  str \<open>t\<close>, the title is \<open>t\<close>, U+FF08, \<open>a\<close>, U+FF09 when the alias list starts with a
  non-empty str \<open>a\<close>; it is \<open>t\<close> alone when the alias list starts with the empty str, and
  when there is no alias (missing, null or empty).
\<close>

theorem title_format:
  assumes "detail_serves net (group_song_id m) song"
    and "dict_get song (lit ''name'') (JStr []) = JStr t"
    and "parse_song B net m = (Inr r, tr)"
  shows "(map_of song (lit ''alias'') = Some (JList (JStr a # rest)) \<and> a \<noteq> [] \<longrightarrow>
            r_title r = t @ [0xFF08] @ a @ [0xFF09])
         \<and> (map_of song (lit ''alias'') = Some (JList (JStr [] # rest)) \<longrightarrow> r_title r = t)
         \<and> (\<not> truthy B (dict_get song (lit ''alias'') JNull) \<longrightarrow> r_title r = t)"
proof -
  from assms(1,3) obtain info entry where
    f: "song_fields B (JDict song) = Inr info"
    and a: "assemble B (group_song_id m) info (dict_get entry (lit ''url'') JNull) = Inr r"
    by (rule parse_song_success)
  from f assms(2) have t: "title info = JStr t"
    and s: "sub_title_of B song = Inr (sub_title info)"
    by (auto simp add: song_fields_eq_Inr)
  have title: "r_title r = t @ (case sub_title info of JStr x \<Rightarrow> if x = [] then [] else [0xFF08] @ x @ [0xFF09] | _ \<Rightarrow> [])"
    if "\<exists>x. sub_title info = JStr x"
    using a t that by (auto simp add: assemble_eq_Inr)
  have one: "r_title r = t @ [0xFF08] @ a @ [0xFF09]"
    if "map_of song (lit ''alias'') = Some (JList (JStr a # rest))" "a \<noteq> []"
  proof -
    from s that(1) have "sub_title info = JStr a"
      by (simp add: sub_title_of_alias_list)
    with title that(2) show ?thesis by simp
  qed
  have two: "r_title r = t"
    if "map_of song (lit ''alias'') = Some (JList (JStr [] # rest))"
  proof -
    from s that have "sub_title info = JStr []"
      by (simp add: sub_title_of_alias_list)
    with title show ?thesis by simp
  qed
  have three: "r_title r = t" if "\<not> truthy B (dict_get song (lit ''alias'') JNull)"
  proof -
    from s that have "sub_title info = JStr []"
      by (simp add: sub_title_of_no_alias)
    with title show ?thesis by simp
  qed
  from one two three show ?thesis by blast
qed

theorem title_format_witness:
  "detail_serves example_net (group_song_id example_match) example_song
   \<and> dict_get example_song (lit ''name'') (JStr []) = JStr (lit ''Song'')
   \<and> parse_song plain_builtins example_net example_match
        = (Inr example_result, [detail_url (lit ''42''), play_url (lit ''42'')])
   \<and> r_title example_result = lit ''Song'' @ [0xFF08] @ lit ''Alt'' @ [0xFF09]
   \<and> detail_serves bare_net (group_song_id example_match) bare_song
   \<and> parse_song plain_builtins bare_net example_match
        = (Inr bare_result, [detail_url (lit ''42''), play_url (lit ''42'')])
   \<and> r_title bare_result = lit ''Song''"
proof -
  have d: "detail_serves example_net (group_song_id example_match) example_song" by simp
  have n: "dict_get example_song (lit ''name'') (JStr []) = JStr (lit ''Song'')"
    by (simp add: example_song_def)
  have al: "map_of example_song (lit ''alias'') = Some (JList (JStr (lit ''Alt'') # []))"
    by (simp add: example_song_def)
  have one: "r_title example_result = lit ''Song'' @ [0xFF08] @ lit ''Alt'' @ [0xFF09]"
    using title_format [OF d n example_run, where a = "lit ''Alt''" and rest = "[]"] al
    by simp
  have d': "detail_serves bare_net (group_song_id example_match) bare_song" by simp
  have n': "dict_get bare_song (lit ''name'') (JStr []) = JStr (lit ''Song'')"
    by (simp add: bare_song_def)
  have na: "\<not> truthy plain_builtins (dict_get bare_song (lit ''alias'') JNull)"
    by (simp add: bare_song_def)
  have two: "r_title bare_result = lit ''Song''"
    using title_format [OF d' n' bare_run] na by simp
  show ?thesis
    using d n one d' two example_run bare_run by blast
qed

text \<open>
  C8, as stated, fails for a first alias that is the empty string: for the song named
  \<open>Song\<close> with the alias list \<open>[""]\<close> the title is \<open>Song\<close>, not \<open>Song\<close> U+FF08 U+FF09 (line 112
  appends the parentheses only \<open>if sub_title\<close>).
\<close>

theorem empty_alias_counterexample:
  "detail_serves empty_alias_net (group_song_id example_match) empty_alias_song
   \<and> dict_get empty_alias_song (lit ''name'') (JStr []) = JStr (lit ''Song'')
   \<and> map_of empty_alias_song (lit ''alias'') = Some (JList [JStr []])
   \<and> outcome_title (parse_song plain_builtins empty_alias_net example_match) = Inr (lit ''Song'')
   \<and> outcome_title (parse_song plain_builtins empty_alias_net example_match)
        \<noteq> Inr (lit ''Song'' @ [0xFF08] @ [] @ [0xFF09])"
proof -
  have "dict_get empty_alias_song (lit ''name'') (JStr []) = JStr (lit ''Song'')"
    and "map_of empty_alias_song (lit ''alias'') = Some (JList [JStr []])"
    by (simp_all add: empty_alias_song_def)
  then show ?thesis
    by (simp add: empty_alias_run outcome_title_def bare_result_def)
qed

text \<open>
  C9: when the song handler returns a result and \<open>artists\<close> is a list (or missing, which
  reads as the empty list), every artist is an object whose name is a str (the empty str
  when missing), the author name is these names joined with \<open>" / "\<close>, the author is
  \<open>None\<close> when that name is empty and otherwise holds the name and the \<open>img1v1Url\<close> of
  the first artist, the empty str when the first artist has none.
\<close>

theorem author_from_artists:
  assumes "detail_serves net (group_song_id m) song"
    and "dict_get song (lit ''artists'') (JList []) = JList ars"
    and "parse_song B net m = (Inr r, tr)"
  shows "r_author r =
           (if join (lit '' / '') (map artist_name ars) = [] then None
            else Some \<lparr>au_name = join (lit '' / '') (map artist_name ars),
                       au_avatar = (case ars of
                                      JDict a # rest \<Rightarrow> dict_get a (lit ''img1v1Url'') (JStr [])
                                    | _ \<Rightarrow> JStr [])\<rparr>)
         \<and> (\<forall>ar \<in> set ars. \<exists>a n. ar = JDict a \<and> dict_get a (lit ''name'') (JStr []) = JStr n)"
proof -
  from assms(1,3) obtain info entry where
    f: "song_fields B (JDict song) = Inr info"
    and a: "assemble B (group_song_id m) info (dict_get entry (lit ''url'') JNull) = Inr r"
    by (rule parse_song_success)
  from f have n: "author_name_of song = Inr (author_name info)"
    and v: "author_avatar_of B song = Inr (author_avatar info)"
    by (auto simp add: song_fields_eq_Inr)
  from author_name_of_list [OF assms(2) n] have
    name: "author_name info = join (lit '' / '') (map artist_name ars)"
    and dicts: "\<forall>ar \<in> set ars. \<exists>a n. ar = JDict a \<and> dict_get a (lit ''name'') (JStr []) = JStr n"
    by simp_all
  from dicts have "\<forall>ar \<in> set ars. \<exists>a. ar = JDict a" by blast
  from author_avatar_of_list [OF assms(2) v this] have
    avatar: "author_avatar info = (case ars of
               JDict a # rest \<Rightarrow> dict_get a (lit ''img1v1Url'') (JStr []) | _ \<Rightarrow> JStr [])" .
  from a have "r_author r = (if author_name info \<noteq> []
                          then Some \<lparr>au_name = author_name info, au_avatar = author_avatar info\<rparr>
                          else None)"
    by (auto simp add: assemble_eq_Inr)
  with name avatar dicts show ?thesis by simp
qed

theorem author_from_artists_witness:
  "detail_serves example_net (group_song_id example_match) example_song
   \<and> dict_get example_song (lit ''artists'') (JList [])
       = JList [JDict [(lit ''name'', JStr (lit ''Ann'')),
                       (lit ''img1v1Url'', JStr (lit ''http://example/ann.jpg''))],
                JDict [(lit ''name'', JStr (lit ''Bob''))]]
   \<and> parse_song plain_builtins example_net example_match
        = (Inr example_result, [detail_url (lit ''42''), play_url (lit ''42'')])
   \<and> r_author example_result
        = Some \<lparr>au_name = lit ''Ann / Bob'', au_avatar = JStr (lit ''http://example/ann.jpg'')\<rparr>
   \<and> detail_serves bare_net (group_song_id example_match) bare_song
   \<and> dict_get bare_song (lit ''artists'') (JList []) = JList []
   \<and> parse_song plain_builtins bare_net example_match
        = (Inr bare_result, [detail_url (lit ''42''), play_url (lit ''42'')])
   \<and> r_author bare_result = None"
proof -
  have d: "detail_serves example_net (group_song_id example_match) example_song" by simp
  have ar: "dict_get example_song (lit ''artists'') (JList [])
       = JList [JDict [(lit ''name'', JStr (lit ''Ann'')),
                       (lit ''img1v1Url'', JStr (lit ''http://example/ann.jpg''))],
                JDict [(lit ''name'', JStr (lit ''Bob''))]]"
    by (simp add: example_song_def)
  have "lit ''Ann'' @ lit '' / '' @ lit ''Bob'' = lit ''Ann / Bob''"
    by (simp add: lit_def)
  then have one: "r_author example_result
        = Some \<lparr>au_name = lit ''Ann / Bob'', au_avatar = JStr (lit ''http://example/ann.jpg'')\<rparr>"
    using author_from_artists [OF d ar example_run, THEN conjunct1]
    by (simp add: example_artist_names)
  have d': "detail_serves bare_net (group_song_id example_match) bare_song" by simp
  have ar': "dict_get bare_song (lit ''artists'') (JList []) = JList []"
    by (simp add: bare_song_def)
  have two: "r_author bare_result = None"
    using author_from_artists [OF d' ar' bare_run, THEN conjunct1] by simp
  show ?thesis
    using d ar one d' ar' two example_run bare_run by blast
qed

text \<open>
  C1, as amended: the song handler returns a result only when the detail request
  delivered a first song whose fields could be read and the first playback entry has a
  non-empty (truthy) audio URL. And when the handler returns a result for a song, it also
  returns one, with the same requests, for the same song with an optional field missing,
  and the result is the same but for that field left out (title without the alias, no
  text, no image item, no author). Missing means: the key of the alias, the album, the
  album's name, the album's cover URL or the artists is absent (\<open>without\<close>); or the alias,
  the album's name or the album's cover URL is \<open>None\<close> or another empty value, the album
  is the empty object, or the artists are the empty list (\<open>blank\<close>, \<open>empty_for\<close>). With every
  optional field missing in this sense, an integer (or missing) duration, both requests
  answered and a playable URL, the handler returns the result that has the name as title,
  no text, no author and the audio item alone.
\<close>

theorem result_requirements_and_missing_fields:
  "(parse_song B net m = (Inr r, tr) \<longrightarrow>
      (\<exists>song info entry.
         detail_serves net (group_song_id m) song \<and> song_fields B (JDict song) = Inr info
         \<and> play_serves net (group_song_id m) entry
         \<and> truthy B (dict_get entry (lit ''url'') JNull)))
   \<and> (parse_song B net m = (Inr r, tr)
       \<and> detail_serves net (group_song_id m) song
       \<and> detail_serves net' (group_song_id m) (without f song)
       \<and> net' (play_url (group_song_id m)) = net (play_url (group_song_id m)) \<longrightarrow>
      parse_song B net' m = (Inr (omitting B song f r), tr))
   \<and> (parse_song B net m = (Inr r, tr)
       \<and> detail_serves net (group_song_id m) song
       \<and> detail_serves net' (group_song_id m) (blank f v song)
       \<and> empty_for B f v
       \<and> net' (play_url (group_song_id m)) = net (play_url (group_song_id m)) \<longrightarrow>
      parse_song B net' m = (Inr (omitting B song f r), tr))
   \<and> (detail_serves net (group_song_id m) song
       \<and> \<not> truthy B (dict_get song (lit ''alias'') JNull)
       \<and> dict_get song (lit ''album'') (JDict []) = JDict al
       \<and> \<not> truthy B (dict_get al (lit ''name'') (JStr []))
       \<and> \<not> truthy B (dict_get al (lit ''picUrl'') (JStr []))
       \<and> dict_get song (lit ''artists'') (JList []) = JList []
       \<and> py_floordiv B (dict_get song (lit ''duration'') (JInt 0)) 1000 = Inr secs
       \<and> play_serves net (group_song_id m) entry
       \<and> truthy B (dict_get entry (lit ''url'') JNull) \<longrightarrow>
      parse_song B net m =
        (Inr \<lparr>r_title = py_format B (dict_get song (lit ''name'') (JStr [])),
              r_text = None, r_author = None,
              r_contents = [AudioContent (dict_get entry (lit ''url'') JNull) (Some secs)],
              r_timestamp = None,
              r_url = lit ''https://music.163.com/#/song?id='' @ group_song_id m\<rparr>,
         [detail_url (group_song_id m), play_url (group_song_id m)]))"
proof -
  have later: "parse_song B net' m = (Inr (omitting B song f r), tr)"
    if run: "parse_song B net m = (Inr r, tr)"
      and d: "detail_serves net (group_song_id m) song"
      and d': "detail_serves net' (group_song_id m) song'"
      and same: "net' (play_url (group_song_id m)) = net (play_url (group_song_id m))"
      and fields: "\<And>info. song_fields B (JDict song) = Inr info \<Longrightarrow>
          \<exists>info'. song_fields B (JDict song') = Inr info'
            \<and> (\<forall>u. assemble B (group_song_id m) info u = Inr r \<longrightarrow>
                   assemble B (group_song_id m) info' u = Inr (omitting B song f r))"
    for song'
  proof -
    from d run obtain info entry where
      f: "song_fields B (JDict song) = Inr info"
      and p: "play_serves net (group_song_id m) entry"
      and t: "truthy B (dict_get entry (lit ''url'') JNull)"
      and a: "assemble B (group_song_id m) info (dict_get entry (lit ''url'') JNull) = Inr r"
      and tr: "tr = [detail_url (group_song_id m), play_url (group_song_id m)]"
      by (rule parse_song_success)
    from fields [OF f] a obtain info' where
      f': "song_fields B (JDict song') = Inr info'"
      and a': "assemble B (group_song_id m) info' (dict_get entry (lit ''url'') JNull)
                 = Inr (omitting B song f r)"
      by blast
    from p same have p': "play_serves net' (group_song_id m) entry"
      by (simp add: play_serves_def)
    show ?thesis
      unfolding parse_song_eq_Inr using d' f' p' t a' tr by blast
  qed
  show ?thesis
  proof (intro conjI impI)
    assume "parse_song B net m = (Inr r, tr)"
    then show "\<exists>song info entry.
         detail_serves net (group_song_id m) song \<and> song_fields B (JDict song) = Inr info
         \<and> play_serves net (group_song_id m) entry
         \<and> truthy B (dict_get entry (lit ''url'') JNull)"
      unfolding parse_song_eq_Inr by blast
  next
    assume h: "parse_song B net m = (Inr r, tr)
       \<and> detail_serves net (group_song_id m) song
       \<and> detail_serves net' (group_song_id m) (without f song)
       \<and> net' (play_url (group_song_id m)) = net (play_url (group_song_id m))"
    show "parse_song B net' m = (Inr (omitting B song f r), tr)"
    proof (rule later [where song' = "without f song"])
      fix info
      assume f: "song_fields B (JDict song) = Inr info"
      then have ti: "title info = dict_get song (lit ''name'') (JStr [])"
        by (auto simp add: song_fields_eq_Inr)
      show "\<exists>info'. song_fields B (JDict (without f song)) = Inr info'
            \<and> (\<forall>u. assemble B (group_song_id m) info u = Inr r \<longrightarrow>
                   assemble B (group_song_id m) info' u = Inr (omitting B song f r))"
        using song_fields_without [OF f, of f] assemble_without [OF _ ti, of B "group_song_id m" _ r f]
        by blast
    qed (use h in simp_all)
  next
    assume h: "parse_song B net m = (Inr r, tr)
       \<and> detail_serves net (group_song_id m) song
       \<and> detail_serves net' (group_song_id m) (blank f v song)
       \<and> empty_for B f v
       \<and> net' (play_url (group_song_id m)) = net (play_url (group_song_id m))"
    then have e: "empty_for B f v" by simp
    show "parse_song B net' m = (Inr (omitting B song f r), tr)"
    proof (rule later [where song' = "blank f v song"])
      fix info
      assume f: "song_fields B (JDict song) = Inr info"
      then have ti: "title info = dict_get song (lit ''name'') (JStr [])"
        by (auto simp add: song_fields_eq_Inr)
      show "\<exists>info'. song_fields B (JDict (blank f v song)) = Inr info'
            \<and> (\<forall>u. assemble B (group_song_id m) info u = Inr r \<longrightarrow>
                   assemble B (group_song_id m) info' u = Inr (omitting B song f r))"
        using song_fields_blank [OF f e] assemble_blank [OF _ ti e, of "group_song_id m" _ r]
        by blast
    qed (use h in simp_all)
  next
    assume h: "detail_serves net (group_song_id m) song
       \<and> \<not> truthy B (dict_get song (lit ''alias'') JNull)
       \<and> dict_get song (lit ''album'') (JDict []) = JDict al
       \<and> \<not> truthy B (dict_get al (lit ''name'') (JStr []))
       \<and> \<not> truthy B (dict_get al (lit ''picUrl'') (JStr []))
       \<and> dict_get song (lit ''artists'') (JList []) = JList []
       \<and> py_floordiv B (dict_get song (lit ''duration'') (JInt 0)) 1000 = Inr secs
       \<and> play_serves net (group_song_id m) entry
       \<and> truthy B (dict_get entry (lit ''url'') JNull)"
    show "parse_song B net m =
        (Inr \<lparr>r_title = py_format B (dict_get song (lit ''name'') (JStr [])),
              r_text = None, r_author = None,
              r_contents = [AudioContent (dict_get entry (lit ''url'') JNull) (Some secs)],
              r_timestamp = None,
              r_url = lit ''https://music.163.com/#/song?id='' @ group_song_id m\<rparr>,
         [detail_url (group_song_id m), play_url (group_song_id m)])"
      by (rule parse_song_all_missing) (use h in blast)+
  qed
qed

theorem result_requirements_and_missing_fields_witness:
  "parse_song plain_builtins example_net example_match
     = (Inr example_result, [detail_url (lit ''42''), play_url (lit ''42'')])
   \<and> (\<exists>song info entry.
         detail_serves example_net (group_song_id example_match) song
         \<and> song_fields plain_builtins (JDict song) = Inr info
         \<and> play_serves example_net (group_song_id example_match) entry
         \<and> truthy plain_builtins (dict_get entry (lit ''url'') JNull))
   \<and> (\<forall>f. parse_song plain_builtins
              (serve (lit ''42'') (detail_of (without f example_song)) (play_of example_entry))
              example_match
            = (Inr (omitting plain_builtins example_song f example_result),
               [detail_url (lit ''42''), play_url (lit ''42'')]))
   \<and> parse_song plain_builtins
        (serve (lit ''42'') (detail_of (without Alias example_song)) (play_of example_entry))
        example_match
      = (Inr (example_result\<lparr>r_title := lit ''Song''\<rparr>),
         [detail_url (lit ''42''), play_url (lit ''42'')])
   \<and> empty_for plain_builtins Alias JNull
   \<and> parse_song plain_builtins
        (serve (lit ''42'') (detail_of (blank Alias JNull example_song)) (play_of example_entry))
        example_match
      = (Inr (example_result\<lparr>r_title := lit ''Song''\<rparr>),
         [detail_url (lit ''42''), play_url (lit ''42'')])
   \<and> empty_for plain_builtins Author (JList [])
   \<and> parse_song plain_builtins
        (serve (lit ''42'') (detail_of (blank Author (JList []) example_song)) (play_of example_entry))
        example_match
      = (Inr (example_result\<lparr>r_author := None\<rparr>),
         [detail_url (lit ''42''), play_url (lit ''42'')])
   \<and> detail_serves bare_net (group_song_id example_match) bare_song
   \<and> \<not> truthy plain_builtins (dict_get bare_song (lit ''alias'') JNull)
   \<and> dict_get bare_song (lit ''album'') (JDict []) = JDict []
   \<and> dict_get bare_song (lit ''artists'') (JList []) = JList []
   \<and> py_floordiv plain_builtins (dict_get bare_song (lit ''duration'') (JInt 0)) 1000 = Inr (JInt 0)
   \<and> play_serves bare_net (group_song_id example_match) example_entry
   \<and> parse_song plain_builtins bare_net example_match
        = (Inr bare_result, [detail_url (lit ''42''), play_url (lit ''42'')])"
proof -
  note T = result_requirements_and_missing_fields
    [where B = plain_builtins and net = example_net and m = example_match
       and r = example_result and tr = "[detail_url (lit ''42''), play_url (lit ''42'')]"
       and song = example_song]
  have one: "\<exists>song info entry.
         detail_serves example_net (group_song_id example_match) song
         \<and> song_fields plain_builtins (JDict song) = Inr info
         \<and> play_serves example_net (group_song_id example_match) entry
         \<and> truthy plain_builtins (dict_get entry (lit ''url'') JNull)"
    using T [THEN conjunct1] example_run by (rule mp)
  have two: "parse_song plain_builtins
              (serve (lit ''42'') (detail_of (without f example_song)) (play_of example_entry))
              example_match
            = (Inr (omitting plain_builtins example_song f example_result),
               [detail_url (lit ''42''), play_url (lit ''42'')])" for f
  proof -
    let ?net' = "serve (lit ''42'') (detail_of (without f example_song)) (play_of example_entry)"
    have "parse_song plain_builtins example_net example_match
            = (Inr example_result, [detail_url (lit ''42''), play_url (lit ''42'')])
       \<and> detail_serves example_net (group_song_id example_match) example_song
       \<and> detail_serves ?net' (group_song_id example_match) (without f example_song)
       \<and> ?net' (play_url (group_song_id example_match))
           = example_net (play_url (group_song_id example_match))"
      using example_run by (simp add: example_net_def)
    with T [where net' = ?net' and f = f, THEN conjunct2, THEN conjunct1] show ?thesis
      by (rule mp)
  qed
  from two [of Alias] have three: "parse_song plain_builtins
        (serve (lit ''42'') (detail_of (without Alias example_song)) (play_of example_entry))
        example_match
      = (Inr (example_result\<lparr>r_title := lit ''Song''\<rparr>),
         [detail_url (lit ''42''), play_url (lit ''42'')])"
    by (simp only: omitting_example)
  have four: "parse_song plain_builtins
              (serve (lit ''42'') (detail_of (blank f v example_song)) (play_of example_entry))
              example_match
            = (Inr (omitting plain_builtins example_song f example_result),
               [detail_url (lit ''42''), play_url (lit ''42'')])"
    if "empty_for plain_builtins f v" for f v
  proof -
    let ?net' = "serve (lit ''42'') (detail_of (blank f v example_song)) (play_of example_entry)"
    have "parse_song plain_builtins example_net example_match
            = (Inr example_result, [detail_url (lit ''42''), play_url (lit ''42'')])
       \<and> detail_serves example_net (group_song_id example_match) example_song
       \<and> detail_serves ?net' (group_song_id example_match) (blank f v example_song)
       \<and> empty_for plain_builtins f v
       \<and> ?net' (play_url (group_song_id example_match))
           = example_net (play_url (group_song_id example_match))"
      using example_run that by (simp add: example_net_def)
    with T [where net' = ?net' and f = f and v = v, THEN conjunct2, THEN conjunct2, THEN conjunct1]
    show ?thesis
      by (rule mp)
  qed
  have ea: "empty_for plain_builtins Alias JNull" by simp
  have eb: "empty_for plain_builtins Author (JList [])" by simp
  from four [OF ea] have five: "parse_song plain_builtins
        (serve (lit ''42'') (detail_of (blank Alias JNull example_song)) (play_of example_entry))
        example_match
      = (Inr (example_result\<lparr>r_title := lit ''Song''\<rparr>),
         [detail_url (lit ''42''), play_url (lit ''42'')])"
    by (simp only: omitting_example)
  from four [OF eb] have six: "parse_song plain_builtins
        (serve (lit ''42'') (detail_of (blank Author (JList []) example_song)) (play_of example_entry))
        example_match
      = (Inr (example_result\<lparr>r_author := None\<rparr>),
         [detail_url (lit ''42''), play_url (lit ''42'')])"
    by (simp only: omitting_example_author)
  have seven: "detail_serves bare_net (group_song_id example_match) bare_song
       \<and> \<not> truthy plain_builtins (dict_get bare_song (lit ''alias'') JNull)
       \<and> dict_get bare_song (lit ''album'') (JDict []) = JDict []
       \<and> \<not> truthy plain_builtins (dict_get [] (lit ''name'') (JStr []))
       \<and> \<not> truthy plain_builtins (dict_get [] (lit ''picUrl'') (JStr []))
       \<and> dict_get bare_song (lit ''artists'') (JList []) = JList []
       \<and> py_floordiv plain_builtins (dict_get bare_song (lit ''duration'') (JInt 0)) 1000
           = Inr (JInt 0)
       \<and> play_serves bare_net (group_song_id example_match) example_entry
       \<and> truthy plain_builtins (dict_get example_entry (lit ''url'') JNull)"
  proof -
    have "detail_serves bare_net (group_song_id example_match) bare_song"
      and "play_serves bare_net (group_song_id example_match) example_entry"
      by simp_all
    moreover have "\<not> truthy plain_builtins (dict_get bare_song (lit ''alias'') JNull)"
      and "dict_get bare_song (lit ''album'') (JDict []) = JDict []"
      and "dict_get bare_song (lit ''artists'') (JList []) = JList []"
      and "py_floordiv plain_builtins (dict_get bare_song (lit ''duration'') (JInt 0)) 1000
           = Inr (JInt 0)"
      by (simp_all add: bare_song_def)
    moreover have "truthy plain_builtins (dict_get example_entry (lit ''url'') JNull)"
      by (simp add: example_entry_def)
    ultimately show ?thesis by simp
  qed
  have "parse_song plain_builtins bare_net example_match =
        (Inr \<lparr>r_title = py_format plain_builtins (dict_get bare_song (lit ''name'') (JStr [])),
              r_text = None, r_author = None,
              r_contents = [AudioContent (dict_get example_entry (lit ''url'') JNull) (Some (JInt 0))],
              r_timestamp = None,
              r_url = lit ''https://music.163.com/#/song?id='' @ group_song_id example_match\<rparr>,
         [detail_url (group_song_id example_match), play_url (group_song_id example_match)])"
    using result_requirements_and_missing_fields
      [where B = plain_builtins and net = bare_net and m = example_match and song = bare_song
         and al = "[]" and secs = "JInt 0" and entry = example_entry,
       THEN conjunct2, THEN conjunct2, THEN conjunct2] seven
    by (rule mp)
  then have eight: "parse_song plain_builtins bare_net example_match
        = (Inr bare_result, [detail_url (lit ''42''), play_url (lit ''42'')])"
    by (simp add: bare_song_def example_entry_def bare_result_def)
  from example_run one two three ea five eb six seven eight show ?thesis by blast
qed

text \<open>
  C1, as stated, fails when the album or the artists are present as JSON \<open>null\<close>: with
  both requests answered and a playable URL, the song \<open>{"name": "Song", "album": null}\<close>
  makes line 65 raise \<open>AttributeError\<close> and the song \<open>{"name": "Song", "artists": null}\<close>
  makes line 73 raise \<open>TypeError\<close>, where the claim has a result without the field.
\<close>

theorem null_album_counterexample:
  "detail_serves null_album_net (group_song_id example_match) null_album_song
   \<and> play_serves null_album_net (group_song_id example_match) example_entry
   \<and> truthy plain_builtins (dict_get example_entry (lit ''url'') JNull)
   \<and> map_of null_album_song (lit ''album'') = Some JNull
   \<and> parse_song plain_builtins null_album_net example_match
        = (Inl AttributeError, [detail_url (lit ''42'')])
   \<and> detail_serves null_artists_net (group_song_id example_match) null_artists_song
   \<and> play_serves null_artists_net (group_song_id example_match) example_entry
   \<and> map_of null_artists_song (lit ''artists'') = Some JNull
   \<and> parse_song plain_builtins null_artists_net example_match
        = (Inl TypeError, [detail_url (lit ''42'')])"
proof -
  have "truthy plain_builtins (dict_get example_entry (lit ''url'') JNull)"
    by (simp add: example_entry_def)
  moreover have "map_of null_album_song (lit ''album'') = Some JNull"
    by (simp add: null_album_song_def)
  moreover have "map_of null_artists_song (lit ''artists'') = Some JNull"
    by (simp add: null_artists_song_def)
  moreover have "detail_serves null_album_net (group_song_id example_match) null_album_song"
    and "play_serves null_album_net (group_song_id example_match) example_entry"
    by (simp_all add: null_album_net_def)
  moreover have "detail_serves null_artists_net (group_song_id example_match) null_artists_song"
    and "play_serves null_artists_net (group_song_id example_match) example_entry"
    by (simp_all add: null_artists_net_def)
  ultimately show ?thesis
    by (simp add: null_album_run null_artists_run)
qed

end
